theory Spec2Isabelle
  imports Complex_Main "HOL-Library.AList"
begin

section \<open>JSON values as Python sees them\<close>

text \<open>
  The client decodes every HTTP response body with \<^verbatim>\<open>response.json()\<close> and then works on
  the decoded Python value: \<^verbatim>\<open>None\<close>, a \<^verbatim>\<open>bool\<close>, an unbounded \<^verbatim>\<open>int\<close>, a
  \<^verbatim>\<open>float\<close>, a \<^verbatim>\<open>str\<close>, a \<^verbatim>\<open>list\<close> or a \<^verbatim>\<open>dict\<close> with string keys.
  A dict is its list of items in insertion order (which is the order Python iterates in);
  the keys of a Python dict are pairwise distinct.  A finite float is carried by its exact
  rational value, so that Python's exact comparison of ints and floats is plain equality of
  rationals; the non-standard literals NaN and Infinity are outside this type.
  Strings are lists of 8-bit characters.
\<close>

datatype json =
    JNull
  | JBool bool
  | JInt int
  | JFloat rat
  | JStr string
  | JArr "json list"
  | JObj "(string \<times> json) list"

text \<open>The exceptions the client can raise.  \<open>DecodeError\<close> and \<open>ApiError\<close> are the two
  \<^verbatim>\<open>Exception(...)\<close> values raised by \<^verbatim>\<open>sendApiRequest\<close> itself (the second one carries the
  offending payload in its message); the others are the built-in exceptions of the
  interpreter.\<close>

datatype error =
    DecodeError
  | ApiError json
  | TypeError
  | KeyError string
  | IndexError
  | ValueError
  | AttributeError
  | AssertionError

fun rbind :: "error + 'a \<Rightarrow> ('a \<Rightarrow> error + 'b) \<Rightarrow> error + 'b" where
  "rbind (Inl e) f = Inl e"
| "rbind (Inr v) f = f v"

text \<open>A \<^verbatim>\<open>for\<close> loop that appends one object per element and stops at the first exception.\<close>

fun traverse :: "('a \<Rightarrow> error + 'b) \<Rightarrow> 'a list \<Rightarrow> error + 'b list" where
  "traverse f [] = Inr []"
| "traverse f (x # xs) = rbind (f x) (\<lambda>y. rbind (traverse f xs) (\<lambda>ys. Inr (y # ys)))"

subsection \<open>Equality\<close>

text \<open>Python's \<^verbatim>\<open>==\<close> on decoded JSON: numbers (bools included, \<^verbatim>\<open>True == 1\<close>) compare by
  value, lists element by element, dicts as mappings regardless of order, everything else
  by type and content.\<close>

fun num_of :: "json \<Rightarrow> rat option" where
  "num_of (JBool b) = Some (if b then 1 else 0)"
| "num_of (JInt i) = Some (of_int i)"
| "num_of (JFloat q) = Some q"
| "num_of _ = None"

fun py_eq :: "json \<Rightarrow> json \<Rightarrow> bool" where
  "py_eq JNull y = (y = JNull)"
| "py_eq (JStr s) y = (y = JStr s)"
| "py_eq (JArr xs) y = (case y of JArr ys \<Rightarrow> list_all2 py_eq xs ys | _ \<Rightarrow> False)"
| "py_eq (JObj kvs) y = (case y of
       JObj kvs' \<Rightarrow> length kvs = length kvs' \<and>
         list_all (\<lambda>(k, v). case map_of kvs' k of None \<Rightarrow> False | Some v' \<Rightarrow> py_eq v v') kvs
     | _ \<Rightarrow> False)"
| "py_eq x y = (case num_of y of None \<Rightarrow> False | Some b \<Rightarrow> num_of x = Some b)"

subsection \<open>Subscripts, membership, iteration\<close>

text \<open>\<^verbatim>\<open>x[key]\<close> with a string key: only a dict accepts it.\<close>

fun py_getitem_str :: "json \<Rightarrow> string \<Rightarrow> error + json" where
  "py_getitem_str (JObj kvs) k = (case map_of kvs k of None \<Rightarrow> Inl (KeyError k) | Some v \<Rightarrow> Inr v)"
| "py_getitem_str _ k = Inl TypeError"

text \<open>\<^verbatim>\<open>x[key] = v\<close> with a string key: an existing key keeps its place, a new key goes to
  the end.\<close>

fun py_setitem_str :: "json \<Rightarrow> string \<Rightarrow> json \<Rightarrow> error + json" where
  "py_setitem_str (JObj kvs) k v = Inr (JObj (AList.update k v kvs))"
| "py_setitem_str _ k v = Inl TypeError"

fun py_substr :: "string \<Rightarrow> string \<Rightarrow> bool" where
  "py_substr p [] = (p = [])"
| "py_substr p (c # cs) = (take (length p) (c # cs) = p \<or> py_substr p cs)"

text \<open>\<^verbatim>\<open>key in x\<close> with a string key: key lookup in a dict, element search in a list,
  substring search in a string, a \<^verbatim>\<open>TypeError\<close> on anything else.\<close>

fun py_contains :: "string \<Rightarrow> json \<Rightarrow> error + bool" where
  "py_contains k (JObj kvs) = Inr (k \<in> set (map fst kvs))"
| "py_contains k (JArr xs) = Inr (list_ex (\<lambda>e. py_eq e (JStr k)) xs)"
| "py_contains k (JStr s) = Inr (py_substr k s)"
| "py_contains k _ = Inl TypeError"

fun py_keys :: "json \<Rightarrow> error + string list" where
  "py_keys (JObj kvs) = Inr (map fst kvs)"
| "py_keys _ = Inl AttributeError"

fun py_items :: "json \<Rightarrow> error + (string \<times> json) list" where
  "py_items (JObj kvs) = Inr kvs"
| "py_items _ = Inl AttributeError"

text \<open>\<^verbatim>\<open>for e in x\<close>: the elements of a list, the keys of a dict, the characters of a
  string.\<close>

fun py_iter :: "json \<Rightarrow> error + json list" where
  "py_iter (JArr xs) = Inr xs"
| "py_iter (JObj kvs) = Inr (map (\<lambda>kv. JStr (fst kv)) kvs)"
| "py_iter (JStr s) = Inr (map (\<lambda>c. JStr [c]) s)"
| "py_iter _ = Inl TypeError"

text \<open>\<^verbatim>\<open>x[n]\<close> with a non-negative integer literal \<open>n\<close>.  No key of a decoded dict is an
  integer, so a dict raises \<^verbatim>\<open>KeyError\<close>.\<close>

fun py_index :: "json \<Rightarrow> nat \<Rightarrow> error + json" where
  "py_index (JArr xs) n = (if n < length xs then Inr (xs ! n) else Inl IndexError)"
| "py_index (JStr s) n = (if n < length s then Inr (JStr [s ! n]) else Inl IndexError)"
| "py_index (JObj kvs) n = Inl (KeyError (if n = 0 then ''0'' else ''1''))"
| "py_index _ n = Inl TypeError"

text \<open>\<^verbatim>\<open>x[2:]\<close>.  A dict rejects the slice (as unhashable before Python 3.12, as a missing
  key from then on; the model does not tell the two apart).\<close>

fun py_slice_from2 :: "json \<Rightarrow> error + json" where
  "py_slice_from2 (JArr xs) = Inr (JArr (drop 2 xs))"
| "py_slice_from2 (JStr s) = Inr (JStr (drop 2 s))"
| "py_slice_from2 _ = Inl TypeError"

subsection \<open>\<^verbatim>\<open>int(...)\<close>\<close>

definition is_space :: "char \<Rightarrow> bool" where
  "is_space c = (let n = (of_char c :: nat) in (9 \<le> n \<and> n \<le> 13) \<or> (28 \<le> n \<and> n \<le> 32))"

definition digit_val :: "char \<Rightarrow> int option" where
  "digit_val c = (let n = (of_char c :: nat) in
     if 48 \<le> n \<and> n \<le> 57 then Some (int n - 48) else None)"

text \<open>The digits after the first one; a single underscore may separate two digits.\<close>

fun parse_digits :: "int \<Rightarrow> string \<Rightarrow> int option" where
  "parse_digits acc [] = Some acc"
| "parse_digits acc [c] =
     (case digit_val c of None \<Rightarrow> None | Some v \<Rightarrow> Some (10 * acc + v))"
| "parse_digits acc (c # d # ds) =
     (if c = CHR ''_'' then
        (case digit_val d of None \<Rightarrow> None | Some v \<Rightarrow> parse_digits (10 * acc + v) ds)
      else
        (case digit_val c of None \<Rightarrow> None | Some v \<Rightarrow> parse_digits (10 * acc + v) (d # ds)))"

definition py_strip :: "string \<Rightarrow> string" where
  "py_strip s = rev (dropWhile is_space (rev (dropWhile is_space s)))"

fun parse_unsigned :: "string \<Rightarrow> int option" where
  "parse_unsigned [] = None"
| "parse_unsigned (d # ds) =
     (case digit_val d of None \<Rightarrow> None | Some v \<Rightarrow> parse_digits v ds)"

fun parse_signed :: "string \<Rightarrow> int option" where
  "parse_signed [] = None"
| "parse_signed (c # cs) =
     (if c = CHR ''-'' then map_option uminus (parse_unsigned cs)
      else if c = CHR ''+'' then parse_unsigned cs
      else parse_unsigned (c # cs))"

text \<open>\<^verbatim>\<open>int(x)\<close>: a number is truncated towards zero, a string is read in base ten
  (surrounding white space, one sign, digits), \<^verbatim>\<open>None\<close>, lists and dicts are rejected.\<close>

fun py_int :: "json \<Rightarrow> error + int" where
  "py_int (JBool b) = Inr (if b then 1 else 0)"
| "py_int (JInt i) = Inr i"
| "py_int (JFloat q) = Inr (if 0 \<le> q then \<lfloor>q\<rfloor> else \<lceil>q\<rceil>)"
| "py_int (JStr s) = (case parse_signed (py_strip s) of None \<Rightarrow> Inl ValueError | Some i \<Rightarrow> Inr i)"
| "py_int _ = Inl TypeError"

text \<open>\<^verbatim>\<open>toIntInclNone\<close> (client.py): \<^verbatim>\<open>None\<close> stays \<^verbatim>\<open>None\<close>, anything else goes
  through \<^verbatim>\<open>int\<close>.\<close>

definition toIntInclNone :: "json \<Rightarrow> error + int option" where
  "toIntInclNone toInt =
     (if py_eq toInt JNull then Inr None else rbind (py_int toInt) (\<lambda>i. Inr (Some i)))"

section \<open>The transport client\<close>

text \<open>
  \<^verbatim>\<open>sendApiRequest(url, body)\<close> posts the request and decodes the answer.  The exchange with
  the server is represented by its outcome: \<open>None\<close> when \<^verbatim>\<open>response.json()\<close> raises,
  \<open>Some r\<close> when it returns the decoded value \<open>r\<close>.  The \<^verbatim>\<open>return None\<close> that follows the
  \<^verbatim>\<open>raise\<close> in the handler is never reached.
\<close>

definition sendApiRequest :: "json option \<Rightarrow> error + json" where
  "sendApiRequest response =
     (case response of
        None \<Rightarrow> Inl DecodeError
      | Some r \<Rightarrow>
          rbind (py_contains ''error'' r) (\<lambda>present.
            if present then
              rbind (py_getitem_str r ''error'') (\<lambda>e.
                if \<not> py_eq e (JStr '''') then Inl (ApiError r) else Inr r)
            else Inr r))"

section \<open>The entity model (models.py)\<close>

text \<open>
  Each class is a record of its attributes.  An attribute that the client fills with a raw
  decoded value has type \<open>json\<close> (\<open>JNull\<close> is \<^verbatim>\<open>None\<close>); an attribute that the client
  fills with a converted value, or that a constructor checks, has the converted type, with
  \<open>None\<close> for \<^verbatim>\<open>None\<close>.
\<close>

record TransportationSystem =
  id :: int
  name :: "string option"
  username :: "string option"
  goAgencyName :: "string option"
  email :: "string option"
  goTestMode :: "bool option"
  name2 :: "bool option"
  homepage :: "string option"
  logo :: "bool option"
  goRoutePlannerEnabled :: "bool option"
  goColor :: "string option"
  goSupportEmail :: "string option"
  goSharedCode :: "int option"
  goAuthenticationType :: "bool option"

text \<open>An assertion of \<^verbatim>\<open>checkTypes\<close> on a string attribute: \<^verbatim>\<open>str\<close> or \<^verbatim>\<open>None\<close>.\<close>

fun check_str :: "json \<Rightarrow> error + string option" where
  "check_str JNull = Inr None"
| "check_str (JStr s) = Inr (Some s)"
| "check_str _ = Inl AssertionError"

text \<open>\<^verbatim>\<open>TransportationSystem.__init__\<close> stores its arguments and runs \<^verbatim>\<open>checkTypes\<close>.  The
  arguments that \<^verbatim>\<open>getSystems\<close> computes with \<^verbatim>\<open>int\<close> and \<^verbatim>\<open>bool\<close> have the asserted
  type by construction; the assertions on the string attributes can fail.\<close>

definition TransportationSystem_init ::
  "int \<Rightarrow> json \<Rightarrow> json \<Rightarrow> json \<Rightarrow> json \<Rightarrow> bool option \<Rightarrow> bool option \<Rightarrow> json \<Rightarrow> bool option \<Rightarrow>
   bool option \<Rightarrow> json \<Rightarrow> json \<Rightarrow> int option \<Rightarrow> bool option \<Rightarrow> error + TransportationSystem" where
  "TransportationSystem_init id' name' username' goAgencyName' email' goTestMode' name2'
       homepage' logo' goRoutePlannerEnabled' goColor' goSupportEmail' goSharedCode'
       goAuthenticationType' =
     rbind (check_str name') (\<lambda>n.
     rbind (check_str username') (\<lambda>u.
     rbind (check_str goAgencyName') (\<lambda>a.
     rbind (check_str email') (\<lambda>e.
     rbind (check_str homepage') (\<lambda>h.
     rbind (check_str goColor') (\<lambda>c.
     rbind (check_str goSupportEmail') (\<lambda>s.
     Inr \<lparr> TransportationSystem.id = id',
           TransportationSystem.name = n,
           TransportationSystem.username = u,
           TransportationSystem.goAgencyName = a,
           TransportationSystem.email = e,
           TransportationSystem.goTestMode = goTestMode',
           TransportationSystem.name2 = name2',
           TransportationSystem.homepage = h,
           TransportationSystem.logo = logo',
           TransportationSystem.goRoutePlannerEnabled = goRoutePlannerEnabled',
           TransportationSystem.goColor = c,
           TransportationSystem.goSupportEmail = s,
           TransportationSystem.goSharedCode = goSharedCode',
           TransportationSystem.goAuthenticationType = goAuthenticationType' \<rparr>)))))))"

record Route =
  id :: json
  groupId :: json
  groupColor :: json
  name :: json
  shortName :: json
  nameOrig :: json
  fullname :: json
  myid :: json
  mapApp :: json
  archive :: json
  goPrefixRouteName :: json
  goShowSchedule :: json
  outdated :: json
  distance :: json
  latitude :: json
  longitude :: json
  serviceTime :: json
  serviceTimeShort :: json
  systemId :: "int option"
  system :: "TransportationSystem option"

text \<open>\<^verbatim>\<open>Route.__init__\<close>: twenty-one parameters, twenty assignments.  There is no
  \<^verbatim>\<open>self.timezone = timezone\<close>.\<close>

definition Route_init ::
  "json \<Rightarrow> json \<Rightarrow> json \<Rightarrow> json \<Rightarrow> json \<Rightarrow> json \<Rightarrow> json \<Rightarrow> json \<Rightarrow> json \<Rightarrow> json \<Rightarrow> json \<Rightarrow> json \<Rightarrow>
   json \<Rightarrow> json \<Rightarrow> json \<Rightarrow> json \<Rightarrow> json \<Rightarrow> json \<Rightarrow> json \<Rightarrow> int option \<Rightarrow>
   TransportationSystem option \<Rightarrow> Route" where
  "Route_init id' groupId' groupColor' name' shortName' nameOrig' fullname' myid' mapApp'
       archive' goPrefixRouteName' goShowSchedule' outdated' distance' latitude' longitude'
       timezone' serviceTime' serviceTimeShort' systemId' system' =
     \<lparr> Route.id = id',
       Route.groupId = groupId',
       Route.groupColor = groupColor',
       Route.name = name',
       Route.shortName = shortName',
       Route.nameOrig = nameOrig',
       Route.fullname = fullname',
       Route.myid = myid',
       Route.mapApp = mapApp',
       Route.archive = archive',
       Route.goPrefixRouteName = goPrefixRouteName',
       Route.goShowSchedule = goShowSchedule',
       Route.outdated = outdated',
       Route.distance = distance',
       Route.latitude = latitude',
       Route.longitude = longitude',
       Route.serviceTime = serviceTime',
       Route.serviceTimeShort = serviceTimeShort',
       Route.systemId = systemId',
       Route.system = system' \<rparr>"

record Stop =
  id :: json
  routesAndPositions :: "(string \<times> nat list) list"
  systemId :: "int option"
  name :: json
  latitude :: json
  longitude :: json
  radius :: json
  system :: "TransportationSystem option"

definition Stop_init ::
  "json \<Rightarrow> (string \<times> nat list) list option \<Rightarrow> int option \<Rightarrow> json \<Rightarrow> json \<Rightarrow> json \<Rightarrow> json \<Rightarrow>
   TransportationSystem option \<Rightarrow> Stop" where
  "Stop_init id' routesAndPositions' systemId' name' latitude' longitude' radius' system' =
     \<lparr> Stop.id = id',
       Stop.routesAndPositions = (case routesAndPositions' of None \<Rightarrow> [] | Some m \<Rightarrow> m),
       Stop.systemId = systemId',
       Stop.name = name',
       Stop.latitude = latitude',
       Stop.longitude = longitude',
       Stop.radius = radius',
       Stop.system = system' \<rparr>"

record SystemAlert =
  id :: json
  systemId :: json
  system :: "TransportationSystem option"
  routeId :: json
  name :: json
  html :: json
  archive :: json
  important :: json
  dateTimeCreated :: json
  dateTimeFrom :: json
  dateTimeTo :: json
  asPush :: json
  gtfs :: json
  gtfsAlertCauseId :: json
  gtfsAlertEffectId :: json
  gtfsAlertUrl :: json
  gtfsAlertHeaderText :: json
  gtfsAlertDescriptionText :: json
  routeGroupId :: json
  createdUtc :: json
  authorId :: json
  author :: json
  updated :: json
  updateAuthorId :: json
  updateAuthor :: json
  createdF :: json
  fromF :: json
  fromOk :: json
  toOk :: json

definition SystemAlert_init ::
  "json \<Rightarrow> json \<Rightarrow> TransportationSystem option \<Rightarrow> json \<Rightarrow> json \<Rightarrow> json \<Rightarrow> json \<Rightarrow> json \<Rightarrow> json \<Rightarrow>
   json \<Rightarrow> json \<Rightarrow> json \<Rightarrow> json \<Rightarrow> json \<Rightarrow> json \<Rightarrow> json \<Rightarrow> json \<Rightarrow> json \<Rightarrow> json \<Rightarrow> json \<Rightarrow> json \<Rightarrow>
   json \<Rightarrow> json \<Rightarrow> json \<Rightarrow> json \<Rightarrow> json \<Rightarrow> json \<Rightarrow> json \<Rightarrow> json \<Rightarrow> SystemAlert" where
  "SystemAlert_init id' systemId' system' routeId' name' html' archive' important'
       dateTimeCreated' dateTimeFrom' dateTimeTo' asPush' gtfs' gtfsAlertCauseId'
       gtfsAlertEffectId' gtfsAlertUrl' gtfsAlertHeaderText' gtfsAlertDescriptionText'
       routeGroupId' createdUtc' authorId' author' updated' updateAuthorId' updateAuthor'
       createdF' fromF' fromOk' toOk' =
     \<lparr> SystemAlert.id = id',
       SystemAlert.systemId = systemId',
       SystemAlert.system = system',
       SystemAlert.routeId = routeId',
       SystemAlert.name = name',
       SystemAlert.html = html',
       SystemAlert.archive = archive',
       SystemAlert.important = important',
       SystemAlert.dateTimeCreated = dateTimeCreated',
       SystemAlert.dateTimeFrom = dateTimeFrom',
       SystemAlert.dateTimeTo = dateTimeTo',
       SystemAlert.asPush = asPush',
       SystemAlert.gtfs = gtfs',
       SystemAlert.gtfsAlertCauseId = gtfsAlertCauseId',
       SystemAlert.gtfsAlertEffectId = gtfsAlertEffectId',
       SystemAlert.gtfsAlertUrl = gtfsAlertUrl',
       SystemAlert.gtfsAlertHeaderText = gtfsAlertHeaderText',
       SystemAlert.gtfsAlertDescriptionText = gtfsAlertDescriptionText',
       SystemAlert.routeGroupId = routeGroupId',
       SystemAlert.createdUtc = createdUtc',
       SystemAlert.authorId = authorId',
       SystemAlert.author = author',
       SystemAlert.updated = updated',
       SystemAlert.updateAuthorId = updateAuthorId',
       SystemAlert.updateAuthor = updateAuthor',
       SystemAlert.createdF = createdF',
       SystemAlert.fromF = fromF',
       SystemAlert.fromOk = fromOk',
       SystemAlert.toOk = toOk' \<rparr>"

text \<open>The attribute \<^verbatim>\<open>more\<close> is the field \<open>more_info\<close> (\<open>more\<close> is reserved for records).\<close>

record Vehicle =
  id :: json
  name :: json
  type :: json
  system :: "TransportationSystem option"
  calculatedCourse :: json
  routeId :: json
  routeName :: json
  color :: json
  created :: json
  latitude :: json
  longitude :: json
  speed :: json
  paxLoad :: json
  outOfService :: json
  more_info :: json
  tripId :: json

definition Vehicle_init ::
  "json \<Rightarrow> json \<Rightarrow> json \<Rightarrow> TransportationSystem option \<Rightarrow> json \<Rightarrow> json \<Rightarrow> json \<Rightarrow> json \<Rightarrow> json \<Rightarrow>
   json \<Rightarrow> json \<Rightarrow> json \<Rightarrow> json \<Rightarrow> json \<Rightarrow> json \<Rightarrow> json \<Rightarrow> Vehicle" where
  "Vehicle_init id' name' type' system' calculatedCourse' routeId' routeName' color' created'
       latitude' longitude' speed' paxLoad' outOfService' more' tripId' =
     \<lparr> Vehicle.id = id',
       Vehicle.name = name',
       Vehicle.type = type',
       Vehicle.system = system',
       Vehicle.calculatedCourse = calculatedCourse',
       Vehicle.routeId = routeId',
       Vehicle.routeName = routeName',
       Vehicle.color = color',
       Vehicle.created = created',
       Vehicle.latitude = latitude',
       Vehicle.longitude = longitude',
       Vehicle.speed = speed',
       Vehicle.paxLoad = paxLoad',
       Vehicle.outOfService = outOfService',
       Vehicle.more_info = more',
       Vehicle.tripId = tripId' \<rparr>"

section \<open>The response normaliser (client.py)\<close>

text \<open>
  Every listing function sends one request and then works on what \<^verbatim>\<open>sendApiRequest\<close>
  returned.  The part after the request is a function of that value (\<open>getSystems_on\<close>,
  \<open>getRoutes_on\<close>, ...); the whole function composes it with \<open>sendApiRequest\<close>.
  A function that returns either \<^verbatim>\<open>None\<close> or a list has an \<open>option\<close> result.
\<close>

subsection \<open>Filling in missing keys\<close>

text \<open>\<^verbatim>\<open>for key in keys: if key not in x.keys(): x[key] = None\<close>\<close>

fun default_missing_keys :: "string list \<Rightarrow> json \<Rightarrow> error + json" where
  "default_missing_keys [] x = Inr x"
| "default_missing_keys (key # rest) x =
     rbind (py_keys x) (\<lambda>ks.
       if key \<notin> set ks then rbind (py_setitem_str x key JNull) (default_missing_keys rest)
       else default_missing_keys rest x)"

text \<open>\<^verbatim>\<open>for key in keys: if key not in x: x[key] = None\<close>\<close>

fun default_missing :: "string list \<Rightarrow> json \<Rightarrow> error + json" where
  "default_missing [] x = Inr x"
| "default_missing (key # rest) x =
     rbind (py_contains key x) (\<lambda>present.
       if \<not> present then rbind (py_setitem_str x key JNull) (default_missing rest)
       else default_missing rest x)"

subsection \<open>\<^verbatim>\<open>getSystems\<close>\<close>

text \<open>\<^verbatim>\<open>for parameter in system.keys(): if system[parameter] == '': system[parameter] = None\<close>\<close>

fun blank_to_none :: "string list \<Rightarrow> json \<Rightarrow> error + json" where
  "blank_to_none [] system' = Inr system'"
| "blank_to_none (parameter # rest) system' =
     rbind (py_getitem_str system' parameter) (\<lambda>v.
       if py_eq v (JStr '''') then rbind (py_setitem_str system' parameter JNull) (blank_to_none rest)
       else blank_to_none rest system')"

definition system_keys :: "string list" where
  "system_keys = [''goAgencyName'', ''email'', ''email'', ''goTestMode'', ''name2'', ''homepage'',
     ''logo'', ''goRoutePlannerEnabled'', ''goColor'', ''goSupportEmail'', ''goSharedCode'',
     ''goAuthenticationType'']"

text \<open>\<^verbatim>\<open>bool(int(x))\<close>\<close>

definition py_bool_int :: "json \<Rightarrow> error + bool option" where
  "py_bool_int x = rbind (py_int x) (\<lambda>i. Inr (Some (i \<noteq> 0)))"

text \<open>The body of the loop over \<^verbatim>\<open>systems["all"]\<close>; the arguments of the constructor are
  evaluated in the order in which they are written.\<close>

definition getSystems_record :: "json \<Rightarrow> error + TransportationSystem" where
  "getSystems_record system0 =
     rbind (py_keys system0) (\<lambda>parameters.
     rbind (blank_to_none parameters system0) (\<lambda>system1.
     rbind (default_missing_keys system_keys system1) (\<lambda>system2.
     rbind (rbind (py_getitem_str system2 ''id'') py_int) (\<lambda>id'.
     rbind (py_getitem_str system2 ''fullname'') (\<lambda>name'.
     rbind (py_getitem_str system2 ''username'') (\<lambda>username'.
     rbind (py_getitem_str system2 ''goAgencyName'') (\<lambda>goAgencyName'.
     rbind (py_getitem_str system2 ''email'') (\<lambda>email'.
     rbind (rbind (py_getitem_str system2 ''goTestMode'') py_bool_int) (\<lambda>goTestMode'.
     rbind (rbind (py_getitem_str system2 ''name2'') py_bool_int) (\<lambda>name2'.
     rbind (py_getitem_str system2 ''homepage'') (\<lambda>homepage'.
     rbind (rbind (py_getitem_str system2 ''logo'') py_bool_int) (\<lambda>logo'.
     rbind (rbind (py_getitem_str system2 ''goRoutePlannerEnabled'') py_bool_int) (\<lambda>goRoutePlannerEnabled'.
     rbind (py_getitem_str system2 ''goColor'') (\<lambda>goColor'.
     rbind (py_getitem_str system2 ''goSupportEmail'') (\<lambda>goSupportEmail'.
     rbind (rbind (py_getitem_str system2 ''goSharedCode'') toIntInclNone) (\<lambda>goSharedCode'.
     rbind (rbind (py_getitem_str system2 ''goAuthenticationType'') py_bool_int) (\<lambda>goAuthenticationType'.
     TransportationSystem_init id' name' username' goAgencyName' email' goTestMode' name2'
       homepage' logo' goRoutePlannerEnabled' goColor' goSupportEmail' goSharedCode'
       goAuthenticationType')))))))))))))))))"

definition getSystems_on :: "json \<Rightarrow> error + TransportationSystem list" where
  "getSystems_on systems =
     (if py_eq systems JNull then Inr []
      else rbind (rbind (py_getitem_str systems ''all'') py_iter) (traverse getSystems_record))"

definition getSystems :: "json option \<Rightarrow> error + TransportationSystem list" where
  "getSystems response = rbind (sendApiRequest response) getSystems_on"

subsection \<open>\<^verbatim>\<open>getRoutes\<close>\<close>

definition possibleKeys :: "string list" where
  "possibleKeys = [''id'', ''groupId'', ''groupColor'', ''name'', ''shortName'', ''nameOrig'',
     ''fullname'', ''myid'', ''mapApp'', ''archive'', ''goPrefixRouteName'', ''goShowSchedule'',
     ''outdated'', ''distance'', ''latitude'', ''longitude'', ''timezone'', ''serviceTime'',
     ''serviceTimeShort'']"

definition getRoutes_record :: "TransportationSystem \<Rightarrow> json \<Rightarrow> error + Route" where
  "getRoutes_record system' route0 =
     rbind (default_missing_keys possibleKeys route0) (\<lambda>route.
     rbind (py_getitem_str route ''id'') (\<lambda>id'.
     rbind (py_getitem_str route ''groupId'') (\<lambda>groupId'.
     rbind (py_getitem_str route ''groupColor'') (\<lambda>groupColor'.
     rbind (py_getitem_str route ''name'') (\<lambda>name'.
     rbind (py_getitem_str route ''shortName'') (\<lambda>shortName'.
     rbind (py_getitem_str route ''nameOrig'') (\<lambda>nameOrig'.
     rbind (py_getitem_str route ''fullname'') (\<lambda>fullname'.
     rbind (py_getitem_str route ''myid'') (\<lambda>myid'.
     rbind (py_getitem_str route ''mapApp'') (\<lambda>mapApp'.
     rbind (py_getitem_str route ''archive'') (\<lambda>archive'.
     rbind (py_getitem_str route ''goPrefixRouteName'') (\<lambda>goPrefixRouteName'.
     rbind (py_getitem_str route ''goShowSchedule'') (\<lambda>goShowSchedule'.
     rbind (py_getitem_str route ''outdated'') (\<lambda>outdated'.
     rbind (py_getitem_str route ''distance'') (\<lambda>distance'.
     rbind (py_getitem_str route ''latitude'') (\<lambda>latitude'.
     rbind (py_getitem_str route ''longitude'') (\<lambda>longitude'.
     rbind (py_getitem_str route ''timezone'') (\<lambda>timezone'.
     rbind (py_getitem_str route ''serviceTime'') (\<lambda>serviceTime'.
     rbind (py_getitem_str route ''serviceTimeShort'') (\<lambda>serviceTimeShort'.
     rbind (rbind (py_getitem_str route ''userId'') py_int) (\<lambda>systemId'.
     Inr (Route_init id' groupId' groupColor' name' shortName' nameOrig' fullname' myid'
            mapApp' archive' goPrefixRouteName' goShowSchedule' outdated' distance' latitude'
            longitude' timezone' serviceTime' serviceTimeShort' (Some systemId')
            (Some system')))))))))))))))))))))))"

definition getRoutes_on :: "TransportationSystem \<Rightarrow> json \<Rightarrow> error + Route list option" where
  "getRoutes_on system' routes =
     (if py_eq routes JNull then Inr None
      else
        rbind (py_contains ''all'' routes) (\<lambda>wrapped.
        rbind (if wrapped then py_getitem_str routes ''all'' else Inr routes) (\<lambda>routes'.
        rbind (py_iter routes') (\<lambda>rs.
        rbind (traverse (getRoutes_record system') rs) (\<lambda>allRoutes.
        Inr (Some allRoutes))))))"

definition getRoutes :: "TransportationSystem \<Rightarrow> json option \<Rightarrow> error + Route list option" where
  "getRoutes system' response = rbind (sendApiRequest response) (getRoutes_on system')"

subsection \<open>\<^verbatim>\<open>getStops\<close>\<close>

text \<open>
  The model covers the default \<^verbatim>\<open>raw = False\<close>; with \<^verbatim>\<open>raw = True\<close> the function
  returns what \<^verbatim>\<open>sendApiRequest\<close> returned and nothing below is executed.

  First the two replacements of an empty list by an empty dict.
\<close>

definition getStops_normalise :: "json \<Rightarrow> error + json" where
  "getStops_normalise stops =
     rbind (py_getitem_str stops ''routes'') (\<lambda>r.
     rbind (if py_eq r (JArr []) then py_setitem_str stops ''routes'' (JObj []) else Inr stops) (\<lambda>stops1.
     rbind (py_getitem_str stops1 ''stops'') (\<lambda>s.
     (if py_eq s (JArr []) then py_setitem_str stops1 ''stops'' (JObj []) else Inr stops1))))"

text \<open>The inner loop over \<^verbatim>\<open>route[2:]\<close>: a placeholder \<^verbatim>\<open>0\<close> is skipped, any other entry
  contributes \<^verbatim>\<open>stop[1]\<close>.\<close>

fun route_stop_ids :: "json list \<Rightarrow> error + json list" where
  "route_stop_ids [] = Inr []"
| "route_stop_ids (stop # rest) =
     (if py_eq stop (JInt 0) then route_stop_ids rest
      else rbind (py_index stop 1) (\<lambda>sid. rbind (route_stop_ids rest) (\<lambda>ids. Inr (sid # ids))))"

definition route_entry :: "string \<times> json \<Rightarrow> error + (string \<times> json list)" where
  "route_entry item =
     rbind (rbind (py_slice_from2 (snd item)) py_iter) (\<lambda>entries.
     rbind (route_stop_ids entries) (\<lambda>ids. Inr (fst item, ids)))"

text \<open>\<^verbatim>\<open>routesAndStops\<close>: route id to the list of stop ids, in the order of the routes of the
  response.  The route ids are the keys of a dict, hence distinct, and every assignment
  \<^verbatim>\<open>routesAndStops[routeId] = []\<close> opens a new entry.\<close>

definition getStops_routesAndStops :: "json \<Rightarrow> error + (string \<times> json list) list" where
  "getStops_routesAndStops stops =
     rbind (rbind (py_getitem_str stops ''routes'') py_items) (traverse route_entry)"

text \<open>\<^verbatim>\<open>[i for i, x in enumerate(ids) if x == sid]\<close>\<close>

definition positions :: "json list \<Rightarrow> json \<Rightarrow> nat list" where
  "positions ids sid = map fst (filter (\<lambda>ix. py_eq (snd ix) sid) (enumerate 0 ids))"

text \<open>The loop over \<^verbatim>\<open>routesAndStops.keys()\<close> for one stop record; \<^verbatim>\<open>stop["id"]\<close> is
  evaluated in every round.\<close>

fun build_routesAndPositions ::
  "json \<Rightarrow> (string \<times> json list) list \<Rightarrow> error + (string \<times> nat list) list" where
  "build_routesAndPositions stop [] = Inr []"
| "build_routesAndPositions stop (entry # rest) =
     rbind (py_getitem_str stop ''id'') (\<lambda>sid.
       if \<not> list_ex (\<lambda>x. py_eq x sid) (snd entry) then build_routesAndPositions stop rest
       else rbind (build_routesAndPositions stop rest) (\<lambda>rap.
              Inr ((fst entry, positions (snd entry) sid) # rap)))"

definition getStops_record ::
  "TransportationSystem \<Rightarrow> (string \<times> json list) list \<Rightarrow> json \<Rightarrow> error + Stop" where
  "getStops_record system' routesAndStops stop0 =
     rbind (build_routesAndPositions stop0 routesAndStops) (\<lambda>rap.
     rbind (default_missing [''userId'', ''radius''] stop0) (\<lambda>stop.
     rbind (py_getitem_str stop ''id'') (\<lambda>id'.
     rbind (rbind (py_getitem_str stop ''userId'') (\<lambda>u.
              if u = JNull then Inr None else rbind (py_int u) (\<lambda>i. Inr (Some i)))) (\<lambda>systemId'.
     rbind (py_getitem_str stop ''name'') (\<lambda>name'.
     rbind (py_getitem_str stop ''latitude'') (\<lambda>latitude'.
     rbind (py_getitem_str stop ''longitude'') (\<lambda>longitude'.
     rbind (py_getitem_str stop ''radius'') (\<lambda>radius'.
     Inr (Stop_init id' (Some rap) systemId' name' latitude' longitude' radius'
            (Some system'))))))))))"

definition getStops_objects ::
  "TransportationSystem \<Rightarrow> (string \<times> json list) list \<Rightarrow> json \<Rightarrow> error + Stop list" where
  "getStops_objects system' routesAndStops stops =
     rbind (rbind (py_getitem_str stops ''stops'') py_items) (\<lambda>items.
     traverse (\<lambda>item. getStops_record system' routesAndStops (snd item)) items)"

definition getStops_on :: "TransportationSystem \<Rightarrow> json \<Rightarrow> error + Stop list option" where
  "getStops_on system' stops =
     (if py_eq stops JNull then Inr None
      else
        rbind (getStops_normalise stops) (\<lambda>stops2.
        rbind (getStops_routesAndStops stops2) (\<lambda>routesAndStops.
        rbind (getStops_objects system' routesAndStops stops2) (\<lambda>allStops.
        Inr (Some allStops)))))"

definition getStops :: "TransportationSystem \<Rightarrow> json option \<Rightarrow> error + Stop list option" where
  "getStops system' response = rbind (sendApiRequest response) (getStops_on system')"

subsection \<open>\<^verbatim>\<open>getSystemAlerts\<close>\<close>

definition getSystemAlerts_record :: "TransportationSystem \<Rightarrow> json \<Rightarrow> error + SystemAlert" where
  "getSystemAlerts_record system' errorMsg =
     rbind (py_getitem_str errorMsg ''id'') (\<lambda>id'.
     rbind (py_getitem_str errorMsg ''userId'') (\<lambda>systemId'.
     rbind (py_getitem_str errorMsg ''routeId'') (\<lambda>routeId'.
     rbind (py_getitem_str errorMsg ''name'') (\<lambda>name'.
     rbind (py_getitem_str errorMsg ''html'') (\<lambda>html'.
     rbind (py_getitem_str errorMsg ''archive'') (\<lambda>archive'.
     rbind (py_getitem_str errorMsg ''important'') (\<lambda>important'.
     rbind (py_getitem_str errorMsg ''created'') (\<lambda>dateTimeCreated'.
     rbind (py_getitem_str errorMsg ''from'') (\<lambda>dateTimeFrom'.
     rbind (py_getitem_str errorMsg ''to'') (\<lambda>dateTimeTo'.
     rbind (py_getitem_str errorMsg ''asPush'') (\<lambda>asPush'.
     rbind (py_getitem_str errorMsg ''gtfs'') (\<lambda>gtfs'.
     rbind (py_getitem_str errorMsg ''gtfsAlertCauseId'') (\<lambda>gtfsAlertCauseId'.
     rbind (py_getitem_str errorMsg ''gtfsAlertEffectId'') (\<lambda>gtfsAlertEffectId'.
     rbind (py_getitem_str errorMsg ''gtfsAlertUrl'') (\<lambda>gtfsAlertUrl'.
     rbind (py_getitem_str errorMsg ''gtfsAlertHeaderText'') (\<lambda>gtfsAlertHeaderText'.
     rbind (py_getitem_str errorMsg ''gtfsAlertDescriptionText'') (\<lambda>gtfsAlertDescriptionText'.
     rbind (py_getitem_str errorMsg ''routeGroupId'') (\<lambda>routeGroupId'.
     rbind (py_getitem_str errorMsg ''createdUtc'') (\<lambda>createdUtc'.
     rbind (py_getitem_str errorMsg ''authorId'') (\<lambda>authorId'.
     rbind (py_getitem_str errorMsg ''author'') (\<lambda>author'.
     rbind (py_getitem_str errorMsg ''updated'') (\<lambda>updated'.
     rbind (py_getitem_str errorMsg ''updateAuthorId'') (\<lambda>updateAuthorId'.
     rbind (py_getitem_str errorMsg ''updateAuthor'') (\<lambda>updateAuthor'.
     rbind (py_getitem_str errorMsg ''createdF'') (\<lambda>createdF'.
     rbind (py_getitem_str errorMsg ''fromF'') (\<lambda>fromF'.
     rbind (py_getitem_str errorMsg ''fromOk'') (\<lambda>fromOk'.
     rbind (py_getitem_str errorMsg ''toOk'') (\<lambda>toOk'.
     Inr (SystemAlert_init id' systemId' (Some system') routeId' name' html' archive'
            important' dateTimeCreated' dateTimeFrom' dateTimeTo' asPush' gtfs'
            gtfsAlertCauseId' gtfsAlertEffectId' gtfsAlertUrl' gtfsAlertHeaderText'
            gtfsAlertDescriptionText' routeGroupId' createdUtc' authorId' author' updated'
            updateAuthorId' updateAuthor' createdF' fromF' fromOk'
            toOk')))))))))))))))))))))))))))))"

definition getSystemAlerts_on ::
  "TransportationSystem \<Rightarrow> json \<Rightarrow> error + SystemAlert list option" where
  "getSystemAlerts_on system' errorMsgs =
     (if py_eq errorMsgs JNull then Inr None
      else
        rbind (rbind (py_getitem_str errorMsgs ''msgs'') py_iter) (\<lambda>msgs.
        rbind (traverse (getSystemAlerts_record system') msgs) (\<lambda>allAlerts.
        Inr (Some allAlerts))))"

definition getSystemAlerts ::
  "TransportationSystem \<Rightarrow> json option \<Rightarrow> error + SystemAlert list option" where
  "getSystemAlerts system' response = rbind (sendApiRequest response) (getSystemAlerts_on system')"

subsection \<open>\<^verbatim>\<open>getVehicles\<close>\<close>

definition vehicle_keys :: "string list" where
  "vehicle_keys = [''busId'', ''busName'', ''busType'', ''calculatedCourse'', ''routeId'', ''route'',
     ''color'', ''created'', ''latitude'', ''longitude'', ''speed'', ''paxLoad100'',
     ''outOfService'', ''more'', ''tripId'']"

definition getVehicles_record :: "TransportationSystem \<Rightarrow> json \<Rightarrow> error + Vehicle" where
  "getVehicles_record system' entry =
     rbind (py_index entry 0) (\<lambda>vehicle0.
     rbind (default_missing vehicle_keys vehicle0) (\<lambda>vehicle.
     rbind (py_getitem_str vehicle ''busId'') (\<lambda>id'.
     rbind (py_getitem_str vehicle ''busName'') (\<lambda>name'.
     rbind (py_getitem_str vehicle ''busType'') (\<lambda>type'.
     rbind (py_getitem_str vehicle ''calculatedCourse'') (\<lambda>calculatedCourse'.
     rbind (py_getitem_str vehicle ''routeId'') (\<lambda>routeId'.
     rbind (py_getitem_str vehicle ''route'') (\<lambda>routeName'.
     rbind (py_getitem_str vehicle ''color'') (\<lambda>color'.
     rbind (py_getitem_str vehicle ''created'') (\<lambda>created'.
     rbind (py_getitem_str vehicle ''latitude'') (\<lambda>latitude'.
     rbind (py_getitem_str vehicle ''longitude'') (\<lambda>longitude'.
     rbind (py_getitem_str vehicle ''speed'') (\<lambda>speed'.
     rbind (py_getitem_str vehicle ''paxLoad100'') (\<lambda>paxLoad'.
     rbind (py_getitem_str vehicle ''outOfService'') (\<lambda>outOfService'.
     rbind (py_getitem_str vehicle ''more'') (\<lambda>more'.
     rbind (py_getitem_str vehicle ''tripId'') (\<lambda>tripId'.
     Inr (Vehicle_init id' name' type' (Some system') calculatedCourse' routeId' routeName'
            color' created' latitude' longitude' speed' paxLoad' outOfService' more'
            tripId'))))))))))))))))))"

text \<open>The loop over \<^verbatim>\<open>vehicles["buses"].items()\<close> with its \<^verbatim>\<open>continue\<close>.\<close>

fun getVehicles_loop :: "TransportationSystem \<Rightarrow> (string \<times> json) list \<Rightarrow> error + Vehicle list" where
  "getVehicles_loop system' [] = Inr []"
| "getVehicles_loop system' (item # rest) =
     (if fst item = ''-1'' then getVehicles_loop system' rest
      else rbind (getVehicles_record system' (snd item)) (\<lambda>v.
           rbind (getVehicles_loop system' rest) (\<lambda>vs. Inr (v # vs))))"

definition getVehicles_on :: "TransportationSystem \<Rightarrow> json \<Rightarrow> error + Vehicle list option" where
  "getVehicles_on system' vehicles =
     (if py_eq vehicles JNull then Inr None
      else
        rbind (rbind (py_getitem_str vehicles ''buses'') py_items) (\<lambda>items.
        rbind (getVehicles_loop system' items) (\<lambda>allVehicles.
        Inr (Some allVehicles))))"

definition getVehicles :: "TransportationSystem \<Rightarrow> json option \<Rightarrow> error + Vehicle list option" where
  "getVehicles system' response = rbind (sendApiRequest response) (getVehicles_on system')"

section \<open>The derived query \<^verbatim>\<open>Route.getStops\<close> (models.py)\<close>

text \<open>\<^verbatim>\<open>x in list(stop.routesAndPositions.keys())\<close>: the keys are strings.\<close>

definition key_in :: "json \<Rightarrow> string list \<Rightarrow> bool" where
  "key_in x ks = list_ex (\<lambda>k. py_eq (JStr k) x) ks"

definition serves :: "Route \<Rightarrow> Stop \<Rightarrow> bool" where
  "serves self stop =
     (key_in (Route.myid self) (map fst (Stop.routesAndPositions stop)) \<or>
      key_in (Route.id self) (map fst (Stop.routesAndPositions stop)) \<or>
      key_in (Route.groupId self) (map fst (Stop.routesAndPositions stop)))"

text \<open>The loop over \<^verbatim>\<open>allStops\<close>; the second argument is \<^verbatim>\<open>stopsForRoute\<close>.\<close>

fun stopsForRoute_loop :: "Route \<Rightarrow> Stop list \<Rightarrow> Stop list \<Rightarrow> Stop list" where
  "stopsForRoute_loop self stopsForRoute [] = stopsForRoute"
| "stopsForRoute_loop self stopsForRoute (stop # rest) =
     (if serves self stop then stopsForRoute_loop self (stopsForRoute @ [stop]) rest
      else stopsForRoute_loop self stopsForRoute rest)"

text \<open>\<^verbatim>\<open>self.system.getStops()\<close> needs a system (an attribute access on \<^verbatim>\<open>None\<close> raises
  \<^verbatim>\<open>AttributeError\<close>), and a \<^verbatim>\<open>None\<close> result cannot be iterated.\<close>

definition Route_getStops :: "Route \<Rightarrow> json option \<Rightarrow> error + Stop list" where
  "Route_getStops self response =
     (case Route.system self of
        None \<Rightarrow> Inl AttributeError
      | Some system' \<Rightarrow>
          rbind (getStops system' response) (\<lambda>allStops.
            case allStops of
              None \<Rightarrow> Inl TypeError
            | Some stops \<Rightarrow> Inr (stopsForRoute_loop self [] stops)))"

section \<open>Concrete responses\<close>

text \<open>A system as \<^verbatim>\<open>getSystems\<close> builds it, used as the owner in the examples.\<close>

definition demo_system :: TransportationSystem where
  "demo_system = \<lparr> TransportationSystem.id = 1270,
     TransportationSystem.name = Some ''University of Michigan'',
     TransportationSystem.username = Some ''umich'',
     TransportationSystem.goAgencyName = None,
     TransportationSystem.email = None,
     TransportationSystem.goTestMode = Some False,
     TransportationSystem.name2 = Some False,
     TransportationSystem.homepage = None,
     TransportationSystem.logo = Some True,
     TransportationSystem.goRoutePlannerEnabled = Some False,
     TransportationSystem.goColor = None,
     TransportationSystem.goSupportEmail = None,
     TransportationSystem.goSharedCode = None,
     TransportationSystem.goAuthenticationType = Some False \<rparr>"

text \<open>A systems listing with one record that has every key the constructor reads, and the
  same listing without the \<^verbatim>\<open>logo\<close> key.\<close>

definition systems_complete :: json where
  "systems_complete = JObj [(''all'', JArr [JObj [
      (''id'', JStr ''1270''), (''fullname'', JStr ''University of Michigan''),
      (''username'', JStr ''umich''), (''email'', JStr ''''), (''goTestMode'', JStr ''0''),
      (''name2'', JStr ''0''), (''logo'', JStr ''1''), (''goRoutePlannerEnabled'', JStr ''1''),
      (''goSharedCode'', JStr ''42''), (''goAuthenticationType'', JStr ''0'')]])]"

definition systems_without_logo :: json where
  "systems_without_logo = JObj [(''all'', JArr [JObj [
      (''id'', JStr ''1270''), (''fullname'', JStr ''University of Michigan''),
      (''username'', JStr ''umich''), (''email'', JStr ''''), (''goTestMode'', JStr ''0''),
      (''name2'', JStr ''0''), (''goRoutePlannerEnabled'', JStr ''1''),
      (''goSharedCode'', JStr ''42''), (''goAuthenticationType'', JStr ''0'')]])]"

text \<open>A route listing, unwrapped and wrapped under \<^verbatim>\<open>"all"\<close>, and the route it yields.\<close>

definition demo_route_records :: "json list" where
  "demo_route_records = [JObj [
      (''id'', JStr ''100''), (''myid'', JStr ''200''), (''groupId'', JStr ''300''),
      (''name'', JStr ''Loop''), (''timezone'', JStr ''America/Detroit''),
      (''userId'', JStr ''1270'')]]"

definition demo_routes_list :: json where
  "demo_routes_list = JArr demo_route_records"

definition demo_routes_wrapped :: json where
  "demo_routes_wrapped = JObj [(''all'', demo_routes_list)]"

definition demo_route :: Route where
  "demo_route = Route_init (JStr ''100'') (JStr ''300'') JNull (JStr ''Loop'') JNull JNull JNull
     (JStr ''200'') JNull JNull JNull JNull JNull JNull JNull JNull (JStr ''America/Detroit'')
     JNull JNull (Some 1270) (Some demo_system)"

text \<open>A stop listing with two routes and two stops.  Route \<^verbatim>\<open>100\<close> is a loop that visits
  stop \<^verbatim>\<open>S1\<close> twice and has one placeholder; route \<^verbatim>\<open>300\<close> visits \<^verbatim>\<open>S2\<close> only.\<close>

definition demo_stops_response :: json where
  "demo_stops_response = JObj [
     (''routes'', JObj [
        (''100'', JArr [JStr ''Loop'', JStr ''#00ff00'',
                       JArr [JStr ''0'', JStr ''S1''], JArr [JStr ''1'', JStr ''S2''], JInt 0,
                       JArr [JStr ''3'', JStr ''S1'']]),
        (''300'', JArr [JStr ''Express'', JStr ''#ff0000'', JArr [JStr ''0'', JStr ''S2'']])]),
     (''stops'', JObj [
        (''ID1'', JObj [(''id'', JStr ''S1''), (''name'', JStr ''Central''),
                       (''latitude'', JFloat (4228 / 100)), (''longitude'', JFloat (- 8374 / 100)),
                       (''userId'', JStr ''1270''), (''radius'', JInt 50)]),
        (''ID2'', JObj [(''id'', JStr ''S2''), (''name'', JStr ''North''),
                       (''latitude'', JFloat (4229 / 100)), (''longitude'', JFloat (- 8372 / 100))])])]"

definition demo_stop1 :: Stop where
  "demo_stop1 = Stop_init (JStr ''S1'') (Some [(''100'', [0, 2])]) (Some 1270) (JStr ''Central'')
     (JFloat (4228 / 100)) (JFloat (- 8374 / 100)) (JInt 50) (Some demo_system)"

definition demo_stop2 :: Stop where
  "demo_stop2 = Stop_init (JStr ''S2'') (Some [(''100'', [1]), (''300'', [0])]) None (JStr ''North'')
     (JFloat (4229 / 100)) (JFloat (- 8372 / 100)) JNull (Some demo_system)"

text \<open>A route of the same system whose \<^verbatim>\<open>id\<close> and \<^verbatim>\<open>myid\<close> key no stop and whose
  \<^verbatim>\<open>groupId\<close> is the route key \<^verbatim>\<open>300\<close>.\<close>

definition demo_group_route :: Route where
  "demo_group_route = Route_init (JStr ''7'') (JStr ''300'') JNull (JStr ''Express'') JNull JNull
     JNull (JStr ''8'') JNull JNull JNull JNull JNull JNull JNull JNull JNull JNull JNull
     (Some 1270) (Some demo_system)"

text \<open>A vehicle listing with the sentinel entry and one vehicle.\<close>

definition demo_vehicle_record :: "(string \<times> json) list" where
  "demo_vehicle_record = [(''busId'', JInt 4011), (''busName'', JStr ''17''),
      (''busType'', JStr ''bus''), (''route'', JStr ''Loop''), (''routeId'', JStr ''100''),
      (''calculatedCourse'', JInt 270), (''paxLoad100'', JInt 35)]"

definition demo_vehicles_response :: json where
  "demo_vehicles_response = JObj [(''buses'', JObj [
      (''-1'', JArr [JObj [(''busId'', JInt (- 1)), (''busName'', JStr ''none'')]]),
      (''4011'', JArr [JObj demo_vehicle_record])])]"

definition demo_vehicle :: Vehicle where
  "demo_vehicle = Vehicle_init (JInt 4011) (JStr ''17'') (JStr ''bus'') (Some demo_system)
     (JInt 270) (JStr ''100'') (JStr ''Loop'') JNull JNull JNull JNull JNull (JInt 35) JNull JNull
     JNull"

text \<open>An alert listing with one message.\<close>

definition demo_alerts_response :: json where
  "demo_alerts_response = JObj [(''msgs'', JArr [JObj [
      (''id'', JInt 9), (''userId'', JInt 1270), (''routeId'', JNull), (''name'', JStr ''Detour''),
      (''html'', JStr ''<p>Detour</p>''), (''archive'', JStr ''0''), (''important'', JStr ''1''),
      (''created'', JNull), (''from'', JNull), (''to'', JNull), (''asPush'', JNull),
      (''gtfs'', JNull), (''gtfsAlertCauseId'', JNull), (''gtfsAlertEffectId'', JNull),
      (''gtfsAlertUrl'', JNull), (''gtfsAlertHeaderText'', JNull),
      (''gtfsAlertDescriptionText'', JNull), (''routeGroupId'', JNull), (''createdUtc'', JNull),
      (''authorId'', JNull), (''author'', JNull), (''updated'', JNull),
      (''updateAuthorId'', JNull), (''updateAuthor'', JNull), (''createdF'', JNull),
      (''fromF'', JNull), (''fromOk'', JNull), (''toOk'', JNull)]])]"

definition demo_alert :: SystemAlert where
  "demo_alert = SystemAlert_init (JInt 9) (JInt 1270) (Some demo_system) JNull (JStr ''Detour'')
     (JStr ''<p>Detour</p>'') (JStr ''0'') (JStr ''1'') JNull JNull JNull JNull JNull JNull JNull
     JNull JNull JNull JNull JNull JNull JNull JNull JNull JNull JNull JNull JNull JNull"

text \<open>Stop listings with an empty collection: no routes but one stop, nothing at all, and
  routes but no stops.\<close>

definition stops_without_routes :: json where
  "stops_without_routes = JObj [
     (''routes'', JArr []),
     (''stops'', JObj [
        (''ID1'', JObj [(''id'', JStr ''S1''), (''name'', JStr ''Central''),
                       (''latitude'', JFloat (4228 / 100)), (''longitude'', JFloat (- 8374 / 100)),
                       (''userId'', JStr ''1270''), (''radius'', JInt 50)])])]"

definition demo_unrouted_stop :: Stop where
  "demo_unrouted_stop = Stop_init (JStr ''S1'') (Some []) (Some 1270) (JStr ''Central'')
     (JFloat (4228 / 100)) (JFloat (- 8374 / 100)) (JInt 50) (Some demo_system)"

definition stops_nothing :: json where
  "stops_nothing = JObj [(''routes'', JArr []), (''stops'', JArr [])]"

definition demo_route_arrays :: "(string \<times> json) list" where
  "demo_route_arrays = [
     (''100'', JArr [JStr ''Loop'', JStr ''#00ff00'',
                    JArr [JStr ''0'', JStr ''S1''], JArr [JStr ''1'', JStr ''S2''], JInt 0,
                    JArr [JStr ''3'', JStr ''S1'']]),
     (''300'', JArr [JStr ''Express'', JStr ''#ff0000'', JArr [JStr ''0'', JStr ''S2'']])]"

definition routes_without_stops :: json where
  "routes_without_stops = JObj [(''routes'', JObj demo_route_arrays), (''stops'', JArr [])]"

text \<open>A stop listing whose route \<^verbatim>\<open>100\<close> names a stop \<^verbatim>\<open>S9\<close> that the \<^verbatim>\<open>stops\<close>
  collection does not contain.\<close>

definition stops_dangling :: json where
  "stops_dangling = JObj [
     (''routes'', JObj [
        (''100'', JArr [JStr ''Loop'', JStr ''#00ff00'',
                       JArr [JStr ''0'', JStr ''S1''], JArr [JStr ''1'', JStr ''S9'']])]),
     (''stops'', JObj [
        (''ID1'', JObj [(''id'', JStr ''S1''), (''name'', JStr ''Central''),
                       (''latitude'', JFloat (4228 / 100)), (''longitude'', JFloat (- 8374 / 100)),
                       (''userId'', JStr ''1270''), (''radius'', JInt 50)])])]"

definition demo_dangling_stop :: Stop where
  "demo_dangling_stop = Stop_init (JStr ''S1'') (Some [(''100'', [0])]) (Some 1270)
     (JStr ''Central'') (JFloat (4228 / 100)) (JFloat (- 8374 / 100)) (JInt 50)
     (Some demo_system)"

section \<open>Reference definitions for the claims\<close>

text \<open>The definitions of this section are not translations of the source.  They say, in
  the words of the specification, what the source is compared with.\<close>

text \<open>A field of a raw record, \<^verbatim>\<open>None\<close> when the record has no such key.\<close>

definition field_or_null :: "(string \<times> json) list \<Rightarrow> string \<Rightarrow> json" where
  "field_or_null record' k = (case map_of record' k of None \<Rightarrow> JNull | Some v \<Rightarrow> v)"

text \<open>The vehicle that the specification assigns to a raw vehicle record: every enumerated
  field, \<^verbatim>\<open>None\<close> when missing, with \<^verbatim>\<open>busId\<close>, \<^verbatim>\<open>busName\<close>, \<^verbatim>\<open>busType\<close>, \<^verbatim>\<open>route\<close>
  and \<^verbatim>\<open>paxLoad100\<close> renamed to \<^verbatim>\<open>id\<close>, \<^verbatim>\<open>name\<close>, \<^verbatim>\<open>type\<close>, \<^verbatim>\<open>routeName\<close> and
  \<^verbatim>\<open>paxLoad\<close>.\<close>

definition vehicle_of_record :: "TransportationSystem \<Rightarrow> (string \<times> json) list \<Rightarrow> Vehicle" where
  "vehicle_of_record system' record' =
     \<lparr> Vehicle.id = field_or_null record' ''busId'',
       Vehicle.name = field_or_null record' ''busName'',
       Vehicle.type = field_or_null record' ''busType'',
       Vehicle.system = Some system',
       Vehicle.calculatedCourse = field_or_null record' ''calculatedCourse'',
       Vehicle.routeId = field_or_null record' ''routeId'',
       Vehicle.routeName = field_or_null record' ''route'',
       Vehicle.color = field_or_null record' ''color'',
       Vehicle.created = field_or_null record' ''created'',
       Vehicle.latitude = field_or_null record' ''latitude'',
       Vehicle.longitude = field_or_null record' ''longitude'',
       Vehicle.speed = field_or_null record' ''speed'',
       Vehicle.paxLoad = field_or_null record' ''paxLoad100'',
       Vehicle.outOfService = field_or_null record' ''outOfService'',
       Vehicle.more_info = field_or_null record' ''more'',
       Vehicle.tripId = field_or_null record' ''tripId'' \<rparr>"

text \<open>Reading a route back from the stops: \<open>recorded\<close> collects, over all stops, the pairs
  of a position recorded for the route and the id of the stop that records it;
  \<open>reconstruct\<close> lays the ids out by position, from position \<open>0\<close> to the largest recorded
  one.\<close>

definition recorded :: "Stop list \<Rightarrow> string \<Rightarrow> (nat \<times> json) list" where
  "recorded allStops routeId' =
     concat (map (\<lambda>stop. case map_of (Stop.routesAndPositions stop) routeId' of
                            None \<Rightarrow> []
                          | Some ps \<Rightarrow> map (\<lambda>p. (p, Stop.id stop)) ps) allStops)"

definition reconstruct :: "Stop list \<Rightarrow> string \<Rightarrow> json list" where
  "reconstruct allStops routeId' =
     (let pairs = recorded allStops routeId' in
      map (\<lambda>i. case map_of pairs i of None \<Rightarrow> JNull | Some sid \<Rightarrow> sid)
        [0 ..< (if pairs = [] then 0 else Suc (fold max (map fst pairs) 0))])"

section \<open>Basic facts\<close>

lemma rbind_Inr_iff: "rbind m f = Inr y \<longleftrightarrow> (\<exists>v. m = Inr v \<and> f v = Inr y)"
  by (cases m) auto

lemma rbind_InrE:
  assumes "rbind m f = Inr y"
  obtains v where "m = Inr v" and "f v = Inr y"
  using assms by (auto simp: rbind_Inr_iff)

lemma py_eq_JStr_right [simp]: "py_eq e (JStr s) \<longleftrightarrow> e = JStr s"
  by (cases e) (auto split: option.splits)

lemma py_eq_JNull_right [simp]: "py_eq e JNull \<longleftrightarrow> e = JNull"
  by (cases e) (auto split: option.splits)

lemma py_eq_empty_list [simp]: "py_eq e (JArr []) \<longleftrightarrow> e = JArr []"
  by (cases e) (auto split: option.splits)

section \<open>The transport client\<close>

lemma sendApiRequest_undecodable: "sendApiRequest None = Inl DecodeError"
  by (simp add: sendApiRequest_def)

text \<open>On a decoded dict the function does what its documentation says: an \<^verbatim>\<open>error\<close> entry
  other than the empty string raises, anything else is returned as it is.\<close>

lemma sendApiRequest_dict:
  "sendApiRequest (Some (JObj kvs)) =
     (case map_of kvs ''error'' of
        None \<Rightarrow> Inr (JObj kvs)
      | Some e \<Rightarrow> if e = JStr [] then Inr (JObj kvs) else Inl (ApiError (JObj kvs)))"
proof (cases "map_of kvs ''error''")
  case None
  then have "''error'' \<notin> set (map fst kvs)" by (simp add: map_of_eq_None_iff)
  with None show ?thesis by (simp add: sendApiRequest_def)
next
  case (Some e)
  then have "''error'' \<in> set (map fst kvs)"
    using map_of_eq_None_iff [of kvs "''error''"] by simp
  with Some show ?thesis by (simp add: sendApiRequest_def)
qed

text \<open>No outcome of the exchange makes \<^verbatim>\<open>sendApiRequest\<close> return \<^verbatim>\<open>None\<close>: the tests
  \<^verbatim>\<open>== None\<close> of the listing functions guard against a value that this transport never
  delivers.\<close>

lemma sendApiRequest_never_None: "sendApiRequest response \<noteq> Inr JNull"
  by (auto simp: sendApiRequest_def rbind_Inr_iff split: option.splits if_splits)

text \<open>A decoded value that is no container makes the membership test raise.\<close>

lemma sendApiRequest_scalar:
  "sendApiRequest (Some JNull) = Inl TypeError \<and>
   sendApiRequest (Some (JBool b)) = Inl TypeError \<and>
   sendApiRequest (Some (JInt i)) = Inl TypeError \<and>
   sendApiRequest (Some (JFloat q)) = Inl TypeError"
  by (simp add: sendApiRequest_def)

text \<open>
  Claim C6.  \<^verbatim>\<open>sendApiRequest\<close> is to raise exactly when the body is not JSON or the decoded
  response carries a non-empty \<^verbatim>\<open>error\<close> field, and to return the decoded value unchanged
  otherwise.  The body \<^verbatim>\<open>null\<close> is JSON and carries no \<^verbatim>\<open>error\<close> field, so the decoded
  value \<^verbatim>\<open>None\<close> should come back (the documentation of the function lists \<^verbatim>\<open>None\<close>
  among its results, and every caller tests for it); instead the membership test
  \<^verbatim>\<open>"error" in response\<close> raises \<^verbatim>\<open>TypeError\<close>.
\<close>

theorem sendApiRequest_null_body: "sendApiRequest (Some JNull) = Inl TypeError"
  by (simp add: sendApiRequest_def)

section \<open>Absent responses\<close>

text \<open>
  Claim C3, as stated: on an absent response \<^verbatim>\<open>getSystemAlerts\<close> returns \<^verbatim>\<open>None\<close> while
  \<^verbatim>\<open>getSystems\<close> and \<^verbatim>\<open>getRoutes\<close> return an empty list.  This fails for
  \<^verbatim>\<open>getRoutes\<close>, which returns \<^verbatim>\<open>None\<close>.
\<close>

theorem getRoutes_absent_counterexample:
  "\<not> (getSystemAlerts_on demo_system JNull = Inr None \<and>
      getSystems_on JNull = Inr [] \<and>
      getRoutes_on demo_system JNull = Inr (Some []))"
  by (simp add: getRoutes_on_def)

text \<open>
  Claim C3, amended: on an absent response \<^verbatim>\<open>getSystemAlerts\<close> and \<^verbatim>\<open>getRoutes\<close> return
  \<^verbatim>\<open>None\<close>, whereas \<^verbatim>\<open>getSystems\<close> returns an empty list.
\<close>

theorem absent_response_sentinels:
  "getSystemAlerts_on s JNull = Inr None \<and> getRoutes_on s JNull = Inr None \<and>
   getSystems_on JNull = Inr []"
  by (simp add: getSystemAlerts_on_def getRoutes_on_def getSystems_on_def)

text \<open>The other two listing functions return \<^verbatim>\<open>None\<close> as well.\<close>

lemma absent_response_stops_vehicles:
  "getStops_on s JNull = Inr None \<and> getVehicles_on s JNull = Inr None"
  by (simp add: getStops_on_def getVehicles_on_def)

section \<open>System records\<close>

text \<open>A record with every key is normalised as described: the empty string becomes
  \<^verbatim>\<open>None\<close>, missing string attributes become \<^verbatim>\<open>None\<close>, the five flags become
  booleans and the shared code an integer.\<close>

lemma getSystems_complete_record:
  "getSystems (Some systems_complete) = Inr [demo_system
      \<lparr> TransportationSystem.goRoutePlannerEnabled := Some True,
        TransportationSystem.goSharedCode := Some 42 \<rparr>]"
  by code_simp

text \<open>
  Claim C2.  A system record without one of the enumerated optional keys, for example
  without \<^verbatim>\<open>logo\<close>, is to give a \<^verbatim>\<open>TransportationSystem\<close> whose field is \<^verbatim>\<open>None\<close>, with
  no exception.  The loop over the key list does store \<^verbatim>\<open>None\<close> under \<^verbatim>\<open>logo\<close>, but the
  constructor call then evaluates \<^verbatim>\<open>bool(int(None))\<close>, which raises \<^verbatim>\<open>TypeError\<close>; the
  sibling attribute \<^verbatim>\<open>goSharedCode\<close> goes through \<^verbatim>\<open>toIntInclNone\<close> and survives.
\<close>

theorem getSystems_missing_logo_raises:
  "getSystems (Some systems_without_logo) = Inl TypeError"
  by code_simp

section \<open>The constructor of \<^verbatim>\<open>Route\<close>\<close>

text \<open>
  Claim C10.  The constructed \<^verbatim>\<open>Route\<close> does not depend on the \<^verbatim>\<open>timezone\<close> argument
  (the record has no such field), and each of the twenty other arguments is stored
  unchanged.
\<close>

theorem Route_init_discards_timezone:
  "Route_init i g gc n sn no fn m ma ar gp gs od d la lo tz st sts sid sy =
     Route_init i g gc n sn no fn m ma ar gp gs od d la lo tz' st sts sid sy \<and>
   Route.id (Route_init i g gc n sn no fn m ma ar gp gs od d la lo tz st sts sid sy) = i \<and>
   Route.groupId (Route_init i g gc n sn no fn m ma ar gp gs od d la lo tz st sts sid sy) = g \<and>
   Route.groupColor (Route_init i g gc n sn no fn m ma ar gp gs od d la lo tz st sts sid sy) = gc \<and>
   Route.name (Route_init i g gc n sn no fn m ma ar gp gs od d la lo tz st sts sid sy) = n \<and>
   Route.shortName (Route_init i g gc n sn no fn m ma ar gp gs od d la lo tz st sts sid sy) = sn \<and>
   Route.nameOrig (Route_init i g gc n sn no fn m ma ar gp gs od d la lo tz st sts sid sy) = no \<and>
   Route.fullname (Route_init i g gc n sn no fn m ma ar gp gs od d la lo tz st sts sid sy) = fn \<and>
   Route.myid (Route_init i g gc n sn no fn m ma ar gp gs od d la lo tz st sts sid sy) = m \<and>
   Route.mapApp (Route_init i g gc n sn no fn m ma ar gp gs od d la lo tz st sts sid sy) = ma \<and>
   Route.archive (Route_init i g gc n sn no fn m ma ar gp gs od d la lo tz st sts sid sy) = ar \<and>
   Route.goPrefixRouteName (Route_init i g gc n sn no fn m ma ar gp gs od d la lo tz st sts sid sy) = gp \<and>
   Route.goShowSchedule (Route_init i g gc n sn no fn m ma ar gp gs od d la lo tz st sts sid sy) = gs \<and>
   Route.outdated (Route_init i g gc n sn no fn m ma ar gp gs od d la lo tz st sts sid sy) = od \<and>
   Route.distance (Route_init i g gc n sn no fn m ma ar gp gs od d la lo tz st sts sid sy) = d \<and>
   Route.latitude (Route_init i g gc n sn no fn m ma ar gp gs od d la lo tz st sts sid sy) = la \<and>
   Route.longitude (Route_init i g gc n sn no fn m ma ar gp gs od d la lo tz st sts sid sy) = lo \<and>
   Route.serviceTime (Route_init i g gc n sn no fn m ma ar gp gs od d la lo tz st sts sid sy) = st \<and>
   Route.serviceTimeShort (Route_init i g gc n sn no fn m ma ar gp gs od d la lo tz st sts sid sy) = sts \<and>
   Route.systemId (Route_init i g gc n sn no fn m ma ar gp gs od d la lo tz st sts sid sy) = sid \<and>
   Route.system (Route_init i g gc n sn no fn m ma ar gp gs od d la lo tz st sts sid sy) = sy"
  by (simp add: Route_init_def)

section \<open>Loops\<close>

lemma traverse_Inr_iff:
  "traverse f xs = Inr ys \<longleftrightarrow> list_all2 (\<lambda>x y. f x = Inr y) xs ys"
proof (induction xs arbitrary: ys)
  case Nil
  show ?case by auto
next
  case (Cons x xs)
  show ?case
    by (cases ys) (auto simp: rbind_Inr_iff Cons.IH)
qed

lemma traverse_member:
  "traverse f xs = Inr ys \<Longrightarrow> y \<in> set ys \<Longrightarrow> \<exists>x\<in>set xs. f x = Inr y"
  by (induction xs arbitrary: ys) (auto simp: rbind_Inr_iff)

section \<open>The back-reference to the owning system\<close>

lemma getRoutes_record_system:
  "getRoutes_record s r = Inr x \<Longrightarrow> Route.system x = Some s"
  unfolding getRoutes_record_def
  by (elim rbind_InrE) (auto simp: Route_init_def)

lemma getStops_record_system:
  "getStops_record s ras r = Inr x \<Longrightarrow> Stop.system x = Some s"
  unfolding getStops_record_def
  by (elim rbind_InrE) (auto simp: Stop_init_def)

lemma getVehicles_record_system:
  "getVehicles_record s r = Inr x \<Longrightarrow> Vehicle.system x = Some s"
  unfolding getVehicles_record_def
  by (elim rbind_InrE) (auto simp: Vehicle_init_def)

lemma getSystemAlerts_record_system:
  "getSystemAlerts_record s r = Inr x \<Longrightarrow> SystemAlert.system x = Some s"
  unfolding getSystemAlerts_record_def
  by (elim rbind_InrE) (auto simp: SystemAlert_init_def)

lemma getVehicles_loop_member:
  "getVehicles_loop s items = Inr vs \<Longrightarrow> v \<in> set vs \<Longrightarrow>
     \<exists>item\<in>set items. fst item \<noteq> ''-1'' \<and> getVehicles_record s (snd item) = Inr v"
proof (induction items arbitrary: vs)
  case Nil
  then show ?case by simp
next
  case (Cons item items)
  show ?case
  proof (cases "fst item = ''-1''")
    case True
    with Cons show ?thesis by auto
  next
    case False
    with Cons.prems(1) obtain w ws where w: "getVehicles_record s (snd item) = Inr w"
      and ws: "getVehicles_loop s items = Inr ws" and vs: "vs = w # ws"
      by (auto simp: rbind_Inr_iff)
    from Cons.prems(2) vs have "v = w \<or> v \<in> set ws" by auto
    then show ?thesis
    proof
      assume "v = w"
      with w False show ?thesis by auto
    next
      assume "v \<in> set ws"
      from Cons.IH [OF ws this] show ?thesis by auto
    qed
  qed
qed

lemma getRoutes_on_system:
  assumes "getRoutes_on s r = Inr (Some routes)" and "x \<in> set routes"
  shows "Route.system x = Some s"
proof -
  from assms(1) obtain rs where "traverse (getRoutes_record s) rs = Inr routes"
    by (auto simp: getRoutes_on_def rbind_Inr_iff split: if_splits)
  from traverse_member [OF this assms(2)] show ?thesis
    by (auto dest: getRoutes_record_system)
qed

lemma getStops_objects_system:
  assumes "getStops_objects s ras r = Inr stops" and "x \<in> set stops"
  shows "Stop.system x = Some s"
proof -
  from assms(1) obtain items :: "(string \<times> json) list" where
    "traverse (\<lambda>item. getStops_record s ras (snd item)) items = Inr stops"
    unfolding getStops_objects_def by (elim rbind_InrE)
  from traverse_member [OF this assms(2)] show ?thesis
    by (auto dest: getStops_record_system)
qed

lemma getStops_on_system:
  assumes "getStops_on s r = Inr (Some stops)" and "x \<in> set stops"
  shows "Stop.system x = Some s"
  using assms
  by (auto simp: getStops_on_def rbind_Inr_iff split: if_splits dest: getStops_objects_system)

lemma getVehicles_on_system:
  assumes "getVehicles_on s r = Inr (Some vehicles)" and "x \<in> set vehicles"
  shows "Vehicle.system x = Some s"
proof -
  from assms(1) obtain items where "getVehicles_loop s items = Inr vehicles"
    by (auto simp: getVehicles_on_def rbind_Inr_iff split: if_splits)
  from getVehicles_loop_member [OF this assms(2)] show ?thesis
    by (auto dest: getVehicles_record_system)
qed

lemma getSystemAlerts_on_system:
  assumes "getSystemAlerts_on s r = Inr (Some alerts)" and "x \<in> set alerts"
  shows "SystemAlert.system x = Some s"
proof -
  from assms(1) obtain msgs where "traverse (getSystemAlerts_record s) msgs = Inr alerts"
    by (auto simp: getSystemAlerts_on_def rbind_Inr_iff split: if_splits)
  from traverse_member [OF this assms(2)] show ?thesis
    by (auto dest: getSystemAlerts_record_system)
qed

text \<open>
  Claim C9.  Every \<^verbatim>\<open>Route\<close>, \<^verbatim>\<open>Stop\<close>, \<^verbatim>\<open>Vehicle\<close> and \<^verbatim>\<open>SystemAlert\<close> that a listing
  function returns for a system carries that very system in its \<^verbatim>\<open>system\<close> attribute.
\<close>

theorem system_back_reference:
  "(getRoutes s r1 = Inr (Some routes) \<longrightarrow> (\<forall>x\<in>set routes. Route.system x = Some s)) \<and>
   (getStops s r2 = Inr (Some stops) \<longrightarrow> (\<forall>x\<in>set stops. Stop.system x = Some s)) \<and>
   (getVehicles s r3 = Inr (Some vehicles) \<longrightarrow> (\<forall>x\<in>set vehicles. Vehicle.system x = Some s)) \<and>
   (getSystemAlerts s r4 = Inr (Some alerts) \<longrightarrow> (\<forall>x\<in>set alerts. SystemAlert.system x = Some s))"
  unfolding getRoutes_def getStops_def getVehicles_def getSystemAlerts_def
  by (auto simp: rbind_Inr_iff
      dest: getRoutes_on_system getStops_on_system getVehicles_on_system getSystemAlerts_on_system)

theorem system_back_reference_witness:
  "getRoutes demo_system (Some demo_routes_list) = Inr (Some [demo_route]) \<and>
   Route.system demo_route = Some demo_system \<and>
   getStops demo_system (Some demo_stops_response) = Inr (Some [demo_stop1, demo_stop2]) \<and>
   Stop.system demo_stop1 = Some demo_system \<and>
   Stop.system demo_stop2 = Some demo_system \<and>
   getVehicles demo_system (Some demo_vehicles_response) = Inr (Some [demo_vehicle]) \<and>
   Vehicle.system demo_vehicle = Some demo_system \<and>
   getSystemAlerts demo_system (Some demo_alerts_response) = Inr (Some [demo_alert]) \<and>
   SystemAlert.system demo_alert = Some demo_system"
proof -
  have r: "getRoutes demo_system (Some demo_routes_list) = Inr (Some [demo_route])"
    by code_simp
  have st: "getStops demo_system (Some demo_stops_response) = Inr (Some [demo_stop1, demo_stop2])"
    by code_simp
  have v: "getVehicles demo_system (Some demo_vehicles_response) = Inr (Some [demo_vehicle])"
    by code_simp
  have a: "getSystemAlerts demo_system (Some demo_alerts_response) = Inr (Some [demo_alert])"
    by code_simp
  from system_back_reference [of demo_system "Some demo_routes_list" "[demo_route]"
      "Some demo_stops_response" "[demo_stop1, demo_stop2]"
      "Some demo_vehicles_response" "[demo_vehicle]"
      "Some demo_alerts_response" "[demo_alert]"] r st v a
  show ?thesis by simp
qed

section \<open>Wrapped and unwrapped route listings\<close>

text \<open>The test \<^verbatim>\<open>"all" in routes\<close> decides whether the listing is unwrapped.  Any decoded
  value other than \<^verbatim>\<open>None\<close> that does not itself contain \<^verbatim>\<open>"all"\<close> gives the same
  outcome (the same routes or the same exception) wrapped and unwrapped.\<close>

lemma getRoutes_on_unwrap:
  assumes "R \<noteq> JNull" and "py_contains ''all'' R \<noteq> Inr True"
  shows "getRoutes_on s (JObj [(''all'', R)]) = getRoutes_on s R"
  using assms by (cases R) (auto simp: getRoutes_on_def)

lemma sendApiRequest_records:
  assumes "\<forall>r\<in>set rs. \<exists>kvs. r = JObj kvs"
  shows "sendApiRequest (Some (JArr rs)) = Inr (JArr rs)"
proof -
  from assms have "\<not> list_ex (\<lambda>e. e = JStr ''error'') rs"
    by (auto simp: list_ex_iff)
  then show ?thesis by (simp add: sendApiRequest_def)
qed

text \<open>
  Claim C4.  For a route-list payload \<open>R\<close>, a list of route records, \<^verbatim>\<open>getRoutes\<close> gives
  the same result on the response \<^verbatim>\<open>{"all": R}\<close> and on the response \<open>R\<close>; this holds
  for the whole function, from the decoded body on, and for the part after the request.
\<close>

theorem getRoutes_wrapped_equals_unwrapped:
  assumes "\<forall>r\<in>set rs. \<exists>kvs. r = JObj kvs"
  shows "getRoutes s (Some (JObj [(''all'', JArr rs)])) = getRoutes s (Some (JArr rs)) \<and>
         getRoutes_on s (JObj [(''all'', JArr rs)]) = getRoutes_on s (JArr rs)"
proof -
  from assms have "\<not> list_ex (\<lambda>e. e = JStr ''all'') rs"
    by (auto simp: list_ex_iff)
  then have "py_contains ''all'' (JArr rs) \<noteq> Inr True" by simp
  then have on: "getRoutes_on s (JObj [(''all'', JArr rs)]) = getRoutes_on s (JArr rs)"
    by (intro getRoutes_on_unwrap) simp_all
  have "sendApiRequest (Some (JObj [(''all'', JArr rs)])) = Inr (JObj [(''all'', JArr rs)])"
    by (simp add: sendApiRequest_dict)
  with on sendApiRequest_records [OF assms] show ?thesis
    by (simp add: getRoutes_def)
qed

theorem getRoutes_wrapped_equals_unwrapped_witness:
  "getRoutes demo_system (Some demo_routes_wrapped) = getRoutes demo_system (Some demo_routes_list) \<and>
   getRoutes demo_system (Some demo_routes_list) = Inr (Some [demo_route])"
proof -
  have "getRoutes demo_system (Some demo_routes_list) = Inr (Some [demo_route])"
    by code_simp
  moreover have "\<forall>r\<in>set demo_route_records. \<exists>kvs. r = JObj kvs"
    by (simp add: demo_route_records_def)
  ultimately show ?thesis
    using getRoutes_wrapped_equals_unwrapped [of demo_route_records demo_system]
    by (simp add: demo_routes_wrapped_def demo_routes_list_def)
qed

section \<open>Stops of a route\<close>

lemma stopsForRoute_loop_filter:
  "stopsForRoute_loop self acc stops = acc @ filter (serves self) stops"
  by (induction stops arbitrary: acc) auto

lemma key_in_iff: "key_in x ks \<longleftrightarrow> (\<exists>k\<in>set ks. x = JStr k)"
  by (auto simp: key_in_def list_ex_iff)

text \<open>
  Claim C5.  For a route of system \<open>s\<close> and a stop listing \<open>allStops\<close> of that system,
  \<^verbatim>\<open>Route.getStops\<close> returns exactly the stops, in listing order, one of whose
  \<^verbatim>\<open>routesAndPositions\<close> keys is the route's \<^verbatim>\<open>myid\<close>, its \<^verbatim>\<open>id\<close> or its
  \<^verbatim>\<open>groupId\<close>; in particular a stop keyed by the \<^verbatim>\<open>groupId\<close> is among them whatever
  \<^verbatim>\<open>id\<close> and \<^verbatim>\<open>myid\<close> are.
\<close>

theorem Route_getStops_filters:
  assumes "Route.system self = Some s" and "getStops s response = Inr (Some allStops)"
  shows "Route_getStops self response =
           Inr (filter (\<lambda>stop.
                  (\<exists>k\<in>set (map fst (Stop.routesAndPositions stop)). Route.myid self = JStr k) \<or>
                  (\<exists>k\<in>set (map fst (Stop.routesAndPositions stop)). Route.id self = JStr k) \<or>
                  (\<exists>k\<in>set (map fst (Stop.routesAndPositions stop)). Route.groupId self = JStr k))
                allStops) \<and>
         (\<forall>stop\<in>set allStops.
            (\<exists>k\<in>set (map fst (Stop.routesAndPositions stop)). Route.groupId self = JStr k) \<longrightarrow>
            (\<exists>found. Route_getStops self response = Inr found \<and> stop \<in> set found))"
proof -
  have run: "Route_getStops self response = Inr (filter (serves self) allStops)"
    using assms by (simp add: Route_getStops_def stopsForRoute_loop_filter)
  have cond: "serves self = (\<lambda>stop.
      (\<exists>k\<in>set (map fst (Stop.routesAndPositions stop)). Route.myid self = JStr k) \<or>
      (\<exists>k\<in>set (map fst (Stop.routesAndPositions stop)). Route.id self = JStr k) \<or>
      (\<exists>k\<in>set (map fst (Stop.routesAndPositions stop)). Route.groupId self = JStr k))"
    by (rule ext) (simp only: serves_def key_in_iff)
  from run have first: "Route_getStops self response = Inr (filter (\<lambda>stop.
      (\<exists>k\<in>set (map fst (Stop.routesAndPositions stop)). Route.myid self = JStr k) \<or>
      (\<exists>k\<in>set (map fst (Stop.routesAndPositions stop)). Route.id self = JStr k) \<or>
      (\<exists>k\<in>set (map fst (Stop.routesAndPositions stop)). Route.groupId self = JStr k))
      allStops)"
    by (simp only: cond)
  have second: "\<forall>stop\<in>set allStops.
      (\<exists>k\<in>set (map fst (Stop.routesAndPositions stop)). Route.groupId self = JStr k) \<longrightarrow>
      (\<exists>found. Route_getStops self response = Inr found \<and> stop \<in> set found)"
  proof (intro ballI impI)
    fix stop
    assume "stop \<in> set allStops"
      and "\<exists>k\<in>set (map fst (Stop.routesAndPositions stop)). Route.groupId self = JStr k"
    then have "stop \<in> set (filter (serves self) allStops)"
      by (simp only: cond set_filter) blast
    with run show "\<exists>found. Route_getStops self response = Inr found \<and> stop \<in> set found"
      by blast
  qed
  from first second show ?thesis by (rule conjI)
qed

theorem Route_getStops_filters_witness:
  "Route.system demo_group_route = Some demo_system \<and>
   getStops demo_system (Some demo_stops_response) = Inr (Some [demo_stop1, demo_stop2]) \<and>
   Route.groupId demo_group_route = JStr ''300'' \<and>
   Route.id demo_group_route = JStr ''7'' \<and>
   Route.myid demo_group_route = JStr ''8'' \<and>
   map fst (Stop.routesAndPositions demo_stop2) = [''100'', ''300''] \<and>
   Route_getStops demo_group_route (Some demo_stops_response) = Inr [demo_stop2]"
proof -
  have sys: "Route.system demo_group_route = Some demo_system"
    by (simp add: demo_group_route_def Route_init_def)
  have st: "getStops demo_system (Some demo_stops_response) = Inr (Some [demo_stop1, demo_stop2])"
    by code_simp
  have ids: "Route.groupId demo_group_route = JStr ''300''"
    "Route.id demo_group_route = JStr ''7''" "Route.myid demo_group_route = JStr ''8''"
    by (simp_all add: demo_group_route_def Route_init_def)
  have k1: "map fst (Stop.routesAndPositions demo_stop1) = [''100'']"
    and k2: "map fst (Stop.routesAndPositions demo_stop2) = [''100'', ''300'']"
    by (simp_all add: demo_stop1_def demo_stop2_def Stop_init_def)
  from Route_getStops_filters [OF sys st]
  have "Route_getStops demo_group_route (Some demo_stops_response) =
      Inr (filter (\<lambda>stop.
        (\<exists>k\<in>set (map fst (Stop.routesAndPositions stop)). Route.myid demo_group_route = JStr k) \<or>
        (\<exists>k\<in>set (map fst (Stop.routesAndPositions stop)). Route.id demo_group_route = JStr k) \<or>
        (\<exists>k\<in>set (map fst (Stop.routesAndPositions stop)). Route.groupId demo_group_route = JStr k))
        [demo_stop1, demo_stop2])"
    by (rule conjunct1)
  also have "\<dots> = Inr [demo_stop2]"
    by (simp add: ids demo_stop1_def demo_stop2_def Stop_init_def)
  finally show ?thesis
    using sys st ids k2 by simp
qed

section \<open>Defaults for missing keys\<close>

text \<open>On a dict the loop \<^verbatim>\<open>if key not in x: x[key] = None\<close> never raises; afterwards
  every listed key is present, with \<^verbatim>\<open>None\<close> where it was missing, and nothing else
  has changed.  On anything that is not a dict it raises \<^verbatim>\<open>TypeError\<close> or leaves the
  value as it was.\<close>

lemma default_missing_dict:
  "\<exists>rec'. default_missing ks (JObj rec) = Inr (JObj rec') \<and>
     (\<forall>k. map_of rec' k =
        (if k \<in> set ks \<and> map_of rec k = None then Some JNull else map_of rec k))"
proof (induction ks arbitrary: rec)
  case Nil
  show ?case by simp
next
  case (Cons key rest)
  show ?case
  proof (cases "key \<in> set (map fst rec)")
    case True
    then have present: "map_of rec key \<noteq> None"
      by (simp add: map_of_eq_None_iff)
    from Cons.IH [of rec] obtain rec' where
      run: "default_missing rest (JObj rec) = Inr (JObj rec')" and
      look: "\<And>k. map_of rec' k =
        (if k \<in> set rest \<and> map_of rec k = None then Some JNull else map_of rec k)"
      by blast
    from True run have "default_missing (key # rest) (JObj rec) = Inr (JObj rec')"
      by simp
    moreover from look present have "\<forall>k. map_of rec' k =
        (if k \<in> set (key # rest) \<and> map_of rec k = None then Some JNull else map_of rec k)"
      by auto
    ultimately show ?thesis by blast
  next
    case False
    then have absent: "map_of rec key = None"
      by (simp add: map_of_eq_None_iff)
    from Cons.IH [of "AList.update key JNull rec"] obtain rec' where
      run: "default_missing rest (JObj (AList.update key JNull rec)) = Inr (JObj rec')" and
      look: "\<And>k. map_of rec' k =
        (if k \<in> set rest \<and> map_of (AList.update key JNull rec) k = None then Some JNull
         else map_of (AList.update key JNull rec) k)"
      by blast
    from False run have "default_missing (key # rest) (JObj rec) = Inr (JObj rec')"
      by simp
    moreover from look absent have "\<forall>k. map_of rec' k =
        (if k \<in> set (key # rest) \<and> map_of rec k = None then Some JNull else map_of rec k)"
      by (auto simp: update_conv')
    ultimately show ?thesis by blast
  qed
qed

lemma default_missing_other:
  assumes "\<And>rec. x \<noteq> JObj rec"
  shows "default_missing ks x = Inl TypeError \<or> default_missing ks x = Inr x"
proof (induction ks)
  case Nil
  show ?case by simp
next
  case (Cons key rest)
  from assms have set: "py_setitem_str x key JNull = Inl TypeError"
    by (cases x) auto
  from assms have "py_contains key x = Inl TypeError \<or> (\<exists>b. py_contains key x = Inr b)"
    by (cases x) auto
  with Cons set show ?case by auto
qed

lemma getitem_defaulted:
  assumes "\<forall>k. map_of rec' k =
        (if k \<in> set ks \<and> map_of rec k = None then Some JNull else map_of rec k)"
    and "key \<in> set ks"
  shows "py_getitem_str (JObj rec') key = Inr (field_or_null rec key)"
  using assms by (auto simp: field_or_null_def split: option.splits)

section \<open>Vehicles\<close>

lemma getVehicles_record_other:
  assumes "py_index entry 0 = Inr x" and "\<And>rec. x \<noteq> JObj rec"
  shows "getVehicles_record s entry = Inl TypeError"
proof -
  from assms(2) have get: "py_getitem_str x ''busId'' = Inl TypeError"
    by (cases x) auto
  from default_missing_other [of x vehicle_keys] assms(2)
  have "default_missing vehicle_keys x = Inl TypeError \<or> default_missing vehicle_keys x = Inr x"
    by blast
  with assms(1) get show ?thesis
    by (auto simp: getVehicles_record_def)
qed

lemma getVehicles_record_eq:
  "getVehicles_record s entry =
     (case py_index entry 0 of
        Inl e \<Rightarrow> Inl e
      | Inr x \<Rightarrow> (case x of JObj rec \<Rightarrow> Inr (vehicle_of_record s rec) | _ \<Rightarrow> Inl TypeError))"
proof (cases "py_index entry 0")
  case (Inl e)
  then show ?thesis by (simp add: getVehicles_record_def)
next
  case (Inr x)
  show ?thesis
  proof (cases "\<exists>rec. x = JObj rec")
    case True
    then obtain rec where x: "x = JObj rec" by blast
    from default_missing_dict [of vehicle_keys rec] obtain rec' where
      run: "default_missing vehicle_keys (JObj rec) = Inr (JObj rec')" and
      look: "\<forall>k. map_of rec' k =
        (if k \<in> set vehicle_keys \<and> map_of rec k = None then Some JNull else map_of rec k)"
      by blast
    have "list_all (\<lambda>key. py_getitem_str (JObj rec') key = Inr (field_or_null rec key))
        vehicle_keys"
      unfolding list_all_iff using getitem_defaulted [OF look] by blast
    then have get:
      "py_getitem_str (JObj rec') ''busId'' = Inr (field_or_null rec ''busId'')"
      "py_getitem_str (JObj rec') ''busName'' = Inr (field_or_null rec ''busName'')"
      "py_getitem_str (JObj rec') ''busType'' = Inr (field_or_null rec ''busType'')"
      "py_getitem_str (JObj rec') ''calculatedCourse'' = Inr (field_or_null rec ''calculatedCourse'')"
      "py_getitem_str (JObj rec') ''routeId'' = Inr (field_or_null rec ''routeId'')"
      "py_getitem_str (JObj rec') ''route'' = Inr (field_or_null rec ''route'')"
      "py_getitem_str (JObj rec') ''color'' = Inr (field_or_null rec ''color'')"
      "py_getitem_str (JObj rec') ''created'' = Inr (field_or_null rec ''created'')"
      "py_getitem_str (JObj rec') ''latitude'' = Inr (field_or_null rec ''latitude'')"
      "py_getitem_str (JObj rec') ''longitude'' = Inr (field_or_null rec ''longitude'')"
      "py_getitem_str (JObj rec') ''speed'' = Inr (field_or_null rec ''speed'')"
      "py_getitem_str (JObj rec') ''paxLoad100'' = Inr (field_or_null rec ''paxLoad100'')"
      "py_getitem_str (JObj rec') ''outOfService'' = Inr (field_or_null rec ''outOfService'')"
      "py_getitem_str (JObj rec') ''more'' = Inr (field_or_null rec ''more'')"
      "py_getitem_str (JObj rec') ''tripId'' = Inr (field_or_null rec ''tripId'')"
      by (simp_all add: vehicle_keys_def)
    have "getVehicles_record s entry = Inr (vehicle_of_record s rec)"
      unfolding getVehicles_record_def Inr x run rbind.simps get Vehicle_init_def
        vehicle_of_record_def ..
    with Inr x show ?thesis by simp
  next
    case False
    then have no: "\<And>rec. x \<noteq> JObj rec" by blast
    from getVehicles_record_other [OF Inr no] Inr no show ?thesis
      by (cases x) auto
  qed
qed

lemma getVehicles_loop_Inr_iff:
  "getVehicles_loop s items = Inr vs \<longleftrightarrow>
     list_all2 (\<lambda>item v. getVehicles_record s (snd item) = Inr v)
       (filter (\<lambda>item. fst item \<noteq> ''-1'') items) vs"
proof (induction items arbitrary: vs)
  case Nil
  show ?case by auto
next
  case (Cons item items)
  show ?case
  proof (cases "fst item = ''-1''")
    case True
    with Cons.IH show ?thesis by simp
  next
    case False
    with Cons.IH show ?thesis
      by (cases vs) (auto simp: rbind_Inr_iff)
  qed
qed

lemma getVehicles_record_Inr_iff:
  "getVehicles_record s entry = Inr v \<longleftrightarrow>
     (\<exists>rec. py_index entry 0 = Inr (JObj rec) \<and> v = vehicle_of_record s rec)"
  by (auto simp: getVehicles_record_eq split: sum.splits json.splits)

text \<open>
  Claim C8.  \<^verbatim>\<open>getVehicles\<close> returns a list of vehicles exactly when \<^verbatim>\<open>buses\<close> is a
  dict and the first element of every entry not keyed \<^verbatim>\<open>"-1"\<close> is a record; the list then
  has one vehicle for each such entry, in order, none for an entry keyed \<^verbatim>\<open>"-1"\<close>, and
  each vehicle is the one the specification assigns to the record: missing enumerated
  fields are \<^verbatim>\<open>None\<close> and the five renames are applied.
\<close>

theorem getVehicles_skips_sentinel_and_maps_records:
  "getVehicles_on s vehicles = Inr (Some allVehicles) \<longleftrightarrow>
     (\<exists>buses. py_getitem_str vehicles ''buses'' = Inr (JObj buses) \<and>
        list_all2 (\<lambda>item v. \<exists>rec. py_index (snd item) 0 = Inr (JObj rec) \<and>
                                  v = vehicle_of_record s rec)
          (filter (\<lambda>item. fst item \<noteq> ''-1'') buses) allVehicles)"
proof (cases "vehicles = JNull")
  case True
  then show ?thesis by (simp add: getVehicles_on_def)
next
  case False
  have items: "py_items b = Inr items \<longleftrightarrow> b = JObj items" for b items
    by (cases b) auto
  from False show ?thesis
    by (auto simp: getVehicles_on_def rbind_Inr_iff items getVehicles_loop_Inr_iff
        getVehicles_record_Inr_iff)
qed

theorem getVehicles_skips_sentinel_and_maps_records_witness:
  "getVehicles_on demo_system demo_vehicles_response = Inr (Some [demo_vehicle]) \<and>
   demo_vehicle = vehicle_of_record demo_system demo_vehicle_record \<and>
   py_getitem_str demo_vehicles_response ''buses'' =
     Inr (JObj [(''-1'', JArr [JObj [(''busId'', JInt (- 1)), (''busName'', JStr ''none'')]]),
                (''4011'', JArr [JObj demo_vehicle_record])])"
proof -
  have buses: "py_getitem_str demo_vehicles_response ''buses'' =
     Inr (JObj [(''-1'', JArr [JObj [(''busId'', JInt (- 1)), (''busName'', JStr ''none'')]]),
                (''4011'', JArr [JObj demo_vehicle_record])])"
    by (simp add: demo_vehicles_response_def)
  have v: "demo_vehicle = vehicle_of_record demo_system demo_vehicle_record"
    by (simp add: demo_vehicle_def demo_vehicle_record_def Vehicle_init_def
        vehicle_of_record_def field_or_null_def)
  have "\<exists>buses. py_getitem_str demo_vehicles_response ''buses'' = Inr (JObj buses) \<and>
        list_all2 (\<lambda>item v. \<exists>rec. py_index (snd item) 0 = Inr (JObj rec) \<and>
                                  v = vehicle_of_record demo_system rec)
          (filter (\<lambda>item. fst item \<noteq> ''-1'') buses) [demo_vehicle]"
    using v by (simp add: buses)
  then have "getVehicles_on demo_system demo_vehicles_response = Inr (Some [demo_vehicle])"
    by (simp only: getVehicles_skips_sentinel_and_maps_records)
  with v buses show ?thesis by simp
qed

section \<open>System records without a flag\<close>

text \<open>The failure on a missing \<^verbatim>\<open>logo\<close> does not depend on the rest of the record.\<close>

lemma blank_to_none_keys:
  "blank_to_none ks (JObj d) = Inr y \<Longrightarrow> \<exists>d'. y = JObj d' \<and> map fst d' = map fst d"
proof (induction ks arbitrary: d)
  case Nil
  then show ?case by auto
next
  case (Cons p ks)
  from Cons.prems obtain v where v: "map_of d p = Some v"
    by (auto simp: rbind_Inr_iff split: option.splits)
  then have "p \<in> set (map fst d)"
    using map_of_eq_None_iff [of d p] by simp
  then have keys: "map fst (AList.update p JNull d) = map fst d"
    by (simp add: update_keys)
  show ?case
  proof (cases "v = JStr []")
    case True
    with Cons.prems v have "blank_to_none ks (JObj (AList.update p JNull d)) = Inr y"
      by simp
    from Cons.IH [OF this] keys show ?thesis by simp
  next
    case False
    with Cons.prems v have "blank_to_none ks (JObj d) = Inr y" by simp
    from Cons.IH [OF this] show ?thesis .
  qed
qed

lemma default_missing_keys_dict:
  "default_missing_keys ks (JObj d) = default_missing ks (JObj d)"
  by (induction ks arbitrary: d) simp_all

text \<open>No record without a \<^verbatim>\<open>logo\<close> key yields a system.\<close>

lemma getSystems_record_without_logo:
  assumes "''logo'' \<notin> set (map fst d)"
  shows "\<exists>e. getSystems_record (JObj d) = Inl e"
proof (cases "getSystems_record (JObj d)")
  case (Inl e)
  then show ?thesis by blast
next
  case (Inr x)
  then obtain system1 system2 b where
    blank: "blank_to_none (map fst d) (JObj d) = Inr system1" and
    dflt: "default_missing_keys system_keys system1 = Inr system2" and
    logo: "rbind (py_getitem_str system2 ''logo'') py_bool_int = Inr b"
    unfolding getSystems_record_def
    by (elim rbind_InrE) (auto simp: rbind_Inr_iff)
  from blank_to_none_keys [OF blank] obtain d1 where
    d1: "system1 = JObj d1" "map fst d1 = map fst d" by blast
  from d1(2) have "fst ` set d1 = fst ` set d"
    by (metis list.set_map)
  with assms have "map_of d1 ''logo'' = None"
    by (simp add: map_of_eq_None_iff)
  moreover from default_missing_dict [of system_keys d1] obtain d2 where
    "default_missing system_keys (JObj d1) = Inr (JObj d2)" and
    "\<forall>k. map_of d2 k =
        (if k \<in> set system_keys \<and> map_of d1 k = None then Some JNull else map_of d1 k)"
    by blast
  moreover have "''logo'' \<in> set system_keys" by (simp add: system_keys_def)
  ultimately have "system2 = JObj d2" and "map_of d2 ''logo'' = Some JNull"
    using dflt d1 by (simp_all add: default_missing_keys_dict)
  with logo show ?thesis by (simp add: py_bool_int_def)
qed

section \<open>Stop listings\<close>

lemma py_getitem_str_Inr_iff:
  "py_getitem_str x k = Inr v \<longleftrightarrow> (\<exists>kvs. x = JObj kvs \<and> map_of kvs k = Some v)"
  by (cases x) (auto split: option.splits)

lemma py_items_Inr_iff: "py_items x = Inr items \<longleftrightarrow> x = JObj items"
  by (cases x) auto

text \<open>What \<^verbatim>\<open>getStops\<close> computes from a response that is a dict with both collections.\<close>

lemma getStops_on_dict:
  assumes "map_of kvs ''routes'' = Some r" and "map_of kvs ''stops'' = Some s"
  shows "getStops_on sys (JObj kvs) =
     rbind (rbind (py_items (if r = JArr [] then JObj [] else r)) (traverse route_entry)) (\<lambda>ras.
     rbind (rbind (py_items (if s = JArr [] then JObj [] else s))
              (traverse (\<lambda>item. getStops_record sys ras (snd item)))) (\<lambda>allStops.
     Inr (Some allStops)))"
  using assms
  by (simp add: getStops_on_def getStops_normalise_def getStops_routesAndStops_def
      getStops_objects_def update_conv')


lemma getStops_record_no_routes:
  "getStops_record sys [] raw = Inr stop \<Longrightarrow> Stop.routesAndPositions stop = []"
  unfolding getStops_record_def
  by (elim rbind_InrE) (auto simp: Stop_init_def)

lemma traverse_length: "traverse f xs = Inr ys \<Longrightarrow> length ys = length xs"
  by (simp add: traverse_Inr_iff list_all2_lengthD)

text \<open>
  Claim C7, as stated: a stop response whose \<^verbatim>\<open>routes\<close> collection or whose \<^verbatim>\<open>stops\<close>
  collection is empty gives an empty result.  With \<^verbatim>\<open>routes: []\<close> and one stop record
  the result is that one stop.
\<close>

theorem getStops_empty_routes_counterexample:
  "py_getitem_str stops_without_routes ''routes'' = Inr (JArr []) \<and>
   getStops_on demo_system stops_without_routes = Inr (Some [demo_unrouted_stop]) \<and>
   getStops_on demo_system stops_without_routes \<noteq> Inr (Some [])"
proof -
  have "getStops_on demo_system stops_without_routes = Inr (Some [demo_unrouted_stop])"
    by code_simp
  then show ?thesis by (simp add: stops_without_routes_def)
qed

text \<open>
  Claim C7, amended.  An empty \<^verbatim>\<open>stops\<close> collection (\<^verbatim>\<open>[]\<close> or \<^verbatim>\<open>{}\<close>) gives the
  empty list, with no exception, when the \<^verbatim>\<open>routes\<close> collection is \<^verbatim>\<open>[]\<close> or a dict
  whose route arrays are scanned without exception.  An empty \<^verbatim>\<open>routes\<close> collection
  (\<^verbatim>\<open>[]\<close> or \<^verbatim>\<open>{}\<close>) is treated as no routes: the result is what the stop records give
  with no route at all, so a returned list has one stop per stop record and every
  \<^verbatim>\<open>routesAndPositions\<close> is empty.
\<close>

theorem getStops_empty_collections:
  "(py_getitem_str stops ''stops'' = Inr s \<and> (s = JArr [] \<or> s = JObj []) \<and>
    py_getitem_str stops ''routes'' = Inr r \<and>
    (r = JArr [] \<or> (\<exists>routes ras. r = JObj routes \<and> traverse route_entry routes = Inr ras))
      \<longrightarrow> getStops_on sys stops = Inr (Some [])) \<and>
   (py_getitem_str stops' ''routes'' = Inr r' \<and> (r' = JArr [] \<or> r' = JObj []) \<and>
    py_getitem_str stops' ''stops'' = Inr (JObj items)
      \<longrightarrow> getStops_on sys stops' =
            rbind (traverse (\<lambda>item. getStops_record sys [] (snd item)) items)
              (\<lambda>allStops. Inr (Some allStops)) \<and>
          (\<forall>allStops. getStops_on sys stops' = Inr (Some allStops) \<longrightarrow>
             length allStops = length items \<and>
             (\<forall>stop\<in>set allStops. Stop.routesAndPositions stop = [])))"
proof (intro conjI impI)
  assume "py_getitem_str stops ''stops'' = Inr s \<and> (s = JArr [] \<or> s = JObj []) \<and>
    py_getitem_str stops ''routes'' = Inr r \<and>
    (r = JArr [] \<or> (\<exists>routes ras. r = JObj routes \<and> traverse route_entry routes = Inr ras))"
  then obtain kvs where "stops = JObj kvs" and "map_of kvs ''routes'' = Some r"
    and "map_of kvs ''stops'' = Some s" and "s = JArr [] \<or> s = JObj []"
    and "r = JArr [] \<or> (\<exists>routes ras. r = JObj routes \<and> traverse route_entry routes = Inr ras)"
    by (auto simp: py_getitem_str_Inr_iff)
  then show "getStops_on sys stops = Inr (Some [])"
    by (auto simp: getStops_on_dict)
next
  assume a: "py_getitem_str stops' ''routes'' = Inr r' \<and> (r' = JArr [] \<or> r' = JObj []) \<and>
    py_getitem_str stops' ''stops'' = Inr (JObj items)"
  then obtain kvs where "stops' = JObj kvs" and "map_of kvs ''routes'' = Some r'"
    and "map_of kvs ''stops'' = Some (JObj items)" and "r' = JArr [] \<or> r' = JObj []"
    by (auto simp: py_getitem_str_Inr_iff)
  then show eq: "getStops_on sys stops' =
      rbind (traverse (\<lambda>item. getStops_record sys [] (snd item)) items)
        (\<lambda>allStops. Inr (Some allStops))"
    by (auto simp: getStops_on_dict)
  show "\<forall>allStops. getStops_on sys stops' = Inr (Some allStops) \<longrightarrow>
      length allStops = length items \<and>
      (\<forall>stop\<in>set allStops. Stop.routesAndPositions stop = [])"
  proof (intro allI impI)
    fix allStops
    assume "getStops_on sys stops' = Inr (Some allStops)"
    with eq have t: "traverse (\<lambda>item. getStops_record sys [] (snd item)) items = Inr allStops"
      by (cases "traverse (\<lambda>item. getStops_record sys [] (snd item)) items") auto
    from traverse_length [OF t] traverse_member [OF t]
    show "length allStops = length items \<and>
        (\<forall>stop\<in>set allStops. Stop.routesAndPositions stop = [])"
      by (auto dest: getStops_record_no_routes)
  qed
qed

theorem getStops_empty_collections_witness:
  "getStops_on demo_system routes_without_stops = Inr (Some []) \<and>
   getStops_on demo_system stops_nothing = Inr (Some []) \<and>
   getStops_on demo_system stops_without_routes = Inr (Some [demo_unrouted_stop]) \<and>
   Stop.routesAndPositions demo_unrouted_stop = []"
proof -
  have routes: "traverse route_entry demo_route_arrays =
      Inr [(''100'', [JStr ''S1'', JStr ''S2'', JStr ''S1'']), (''300'', [JStr ''S2''])]"
    by code_simp
  have one: "traverse (\<lambda>item. getStops_record demo_system [] (snd item))
      [(''ID1'', JObj [(''id'', JStr ''S1''), (''name'', JStr ''Central''),
                       (''latitude'', JFloat (4228 / 100)), (''longitude'', JFloat (- 8374 / 100)),
                       (''userId'', JStr ''1270''), (''radius'', JInt 50)])] =
      Inr [demo_unrouted_stop]"
    by code_simp
  have a: "getStops_on demo_system routes_without_stops = Inr (Some [])"
    using getStops_empty_collections [of routes_without_stops "JArr []" "JObj demo_route_arrays"
        demo_system stops_nothing "JArr []" "[]"] routes
    by (simp add: routes_without_stops_def stops_nothing_def)
  have b: "getStops_on demo_system stops_nothing = Inr (Some [])"
    using getStops_empty_collections [of stops_nothing "JArr []" "JArr []"
        demo_system stops_nothing "JArr []" "[]"]
    by (simp add: stops_nothing_def)
  have c: "getStops_on demo_system stops_without_routes = Inr (Some [demo_unrouted_stop])"
    using getStops_empty_collections [of stops_nothing "JArr []" "JArr []"
        demo_system stops_without_routes "JArr []"
        "[(''ID1'', JObj [(''id'', JStr ''S1''), (''name'', JStr ''Central''),
                       (''latitude'', JFloat (4228 / 100)), (''longitude'', JFloat (- 8374 / 100)),
                       (''userId'', JStr ''1270''), (''radius'', JInt 50)])]"] one
    by (simp add: stops_nothing_def stops_without_routes_def)
  have d: "Stop.routesAndPositions demo_unrouted_stop = []"
    by (simp add: demo_unrouted_stop_def Stop_init_def)
  from a b c d show ?thesis by simp
qed

section \<open>Routes and positions\<close>

lemma enumerate_positions:
  "map fst (filter (\<lambda>ix. P (snd ix)) (enumerate n xs)) =
     filter (\<lambda>i. P (xs ! (i - n))) [n ..< n + length xs]"
proof (induction xs arbitrary: n)
  case Nil
  show ?case by simp
next
  case (Cons x xs)
  have shift: "filter (\<lambda>i. P ((x # xs) ! (i - n))) [Suc n ..< Suc n + length xs] =
      filter (\<lambda>i. P (xs ! (i - Suc n))) [Suc n ..< Suc n + length xs]"
  proof (rule filter_cong [OF refl])
    fix i
    assume "i \<in> set [Suc n ..< Suc n + length xs]"
    then have "i - n = Suc (i - Suc n)" by auto
    then show "P ((x # xs) ! (i - n)) = P (xs ! (i - Suc n))" by simp
  qed
  have split: "[n ..< n + length (x # xs)] = n # [Suc n ..< Suc n + length xs]"
    using upt_conv_Cons [of n "Suc n + length xs"] by simp
  show ?case
    unfolding split using Cons.IH [of "Suc n"] shift by simp
qed

lemma positions_eq:
  "positions ids sid = filter (\<lambda>i. py_eq (ids ! i) sid) [0 ..< length ids]"
  using enumerate_positions [of "\<lambda>x. py_eq x sid" 0 ids] by (simp add: positions_def)

lemma build_routesAndPositions_eq:
  assumes "py_getitem_str raw ''id'' = Inr sid"
  shows "build_routesAndPositions raw ras =
     Inr (map (\<lambda>e. (fst e, positions (snd e) sid))
            (filter (\<lambda>e. list_ex (\<lambda>x. py_eq x sid) (snd e)) ras))"
  using assms by (induction ras) simp_all

lemma default_missing_preserves:
  assumes "default_missing ks x = Inr y" and "py_getitem_str y k = Inr v" and "k \<notin> set ks"
  shows "py_getitem_str x k = Inr v"
proof (cases "\<exists>rec. x = JObj rec")
  case True
  then obtain rec where x: "x = JObj rec" by blast
  from default_missing_dict [of ks rec] obtain rec' where
    "default_missing ks (JObj rec) = Inr (JObj rec')" and
    "\<forall>k. map_of rec' k =
        (if k \<in> set ks \<and> map_of rec k = None then Some JNull else map_of rec k)"
    by blast
  with assms x show ?thesis by (auto split: option.splits)
next
  case False
  then have "\<And>rec. x \<noteq> JObj rec" by blast
  from default_missing_other [OF this, of ks] assms(1) have "y = x" by auto
  with assms(2) show ?thesis by simp
qed

lemma getStops_record_shape:
  assumes "getStops_record sys ras raw = Inr stop"
  shows "Stop.routesAndPositions stop =
     map (\<lambda>e. (fst e, positions (snd e) (Stop.id stop)))
       (filter (\<lambda>e. list_ex (\<lambda>x. py_eq x (Stop.id stop)) (snd e)) ras)"
proof -
  from assms obtain rap st sid where
    build: "build_routesAndPositions raw ras = Inr rap" and
    dflt: "default_missing [''userId'', ''radius''] raw = Inr st" and
    get: "py_getitem_str st ''id'' = Inr sid" and
    fields: "Stop.routesAndPositions stop = rap" "Stop.id stop = sid"
    unfolding getStops_record_def
    by (elim rbind_InrE) (auto simp: Stop_init_def)
  from default_missing_preserves [OF dflt get] have "py_getitem_str raw ''id'' = Inr sid"
    by simp
  from build_routesAndPositions_eq [OF this, of ras] build fields show ?thesis
    by simp
qed

lemma map_of_map_filter:
  assumes "distinct (map fst ras)" and "(k, v) \<in> set ras"
  shows "map_of (map (\<lambda>e. (fst e, f e)) (filter P ras)) k =
     (if P (k, v) then Some (f (k, v)) else None)"
  using assms
proof (induction ras)
  case Nil
  then show ?case by simp
next
  case (Cons e ras)
  show ?case
  proof (cases "e = (k, v)")
    case True
    with Cons.prems(1) have "k \<notin> fst ` set ras" by auto
    then have "map_of (map (\<lambda>e. (fst e, f e)) (filter P ras)) k = None"
      by (auto simp: map_of_eq_None_iff image_iff)
    with True show ?thesis by simp
  next
    case False
    with Cons.prems have "(k, v) \<in> set ras" and "fst e \<noteq> k"
      by (auto simp: image_iff)
    with Cons.IH Cons.prems(1) show ?thesis by simp
  qed
qed

lemma getStops_on_records:
  assumes "getStops_on sys stops = Inr (Some allStops)"
    and "rbind (getStops_normalise stops) getStops_routesAndStops = Inr ras"
    and "stop \<in> set allStops"
  shows "\<exists>raw. getStops_record sys ras raw = Inr stop"
proof -
  from assms(1) obtain stops2 ras' where
    "getStops_normalise stops = Inr stops2" and
    "getStops_routesAndStops stops2 = Inr ras'" and
    objs: "getStops_objects sys ras' stops2 = Inr allStops"
    by (auto simp: getStops_on_def rbind_Inr_iff split: if_splits)
  with assms(2) have "ras' = ras" by simp
  with objs have "getStops_objects sys ras stops2 = Inr allStops" by simp
  then obtain items :: "(string \<times> json) list" where
    "traverse (\<lambda>item. getStops_record sys ras (snd item)) items = Inr allStops"
    unfolding getStops_objects_def by (elim rbind_InrE)
  from traverse_member [OF this assms(3)] show ?thesis by blast
qed

text \<open>The entry of a route in the \<^verbatim>\<open>routesAndPositions\<close> of a returned stop.\<close>

lemma routesAndPositions_entry:
  assumes "getStops_on sys stops = Inr (Some allStops)"
    and "rbind (getStops_normalise stops) getStops_routesAndStops = Inr ras"
    and "distinct (map fst ras)"
    and "(rid, ids) \<in> set ras"
    and "stop \<in> set allStops"
  shows "map_of (Stop.routesAndPositions stop) rid =
     (if list_ex (\<lambda>x. py_eq x (Stop.id stop)) ids
      then Some (filter (\<lambda>i. py_eq (ids ! i) (Stop.id stop)) [0 ..< length ids]) else None)"
proof -
  from getStops_on_records [OF assms(1,2,5)] obtain raw where
    "getStops_record sys ras raw = Inr stop" by blast
  from getStops_record_shape [OF this]
  have "map_of (Stop.routesAndPositions stop) rid =
      map_of (map (\<lambda>e. (fst e, positions (snd e) (Stop.id stop)))
        (filter (\<lambda>e. list_ex (\<lambda>x. py_eq x (Stop.id stop)) (snd e)) ras)) rid"
    by simp
  also have "\<dots> = (if list_ex (\<lambda>x. py_eq x (Stop.id stop)) ids
      then Some (positions ids (Stop.id stop)) else None)"
    using map_of_map_filter [OF assms(3,4),
        of "\<lambda>e. positions (snd e) (Stop.id stop)"
           "\<lambda>e. list_ex (\<lambda>x. py_eq x (Stop.id stop)) (snd e)"]
    by simp
  finally show ?thesis by (simp add: positions_eq)
qed

section \<open>Reading the routes back from the stops\<close>

lemma recorded_member:
  "(p, sid) \<in> set (recorded allStops rid) \<longleftrightarrow>
     (\<exists>stop\<in>set allStops. sid = Stop.id stop \<and>
        (\<exists>ps. map_of (Stop.routesAndPositions stop) rid = Some ps \<and> p \<in> set ps))"
proof (induction allStops)
  case Nil
  show ?case by (simp add: recorded_def)
next
  case (Cons stop allStops)
  have "recorded (stop # allStops) rid =
      (case map_of (Stop.routesAndPositions stop) rid of
         None \<Rightarrow> [] | Some ps \<Rightarrow> map (\<lambda>p. (p, Stop.id stop)) ps) @ recorded allStops rid"
    by (simp add: recorded_def)
  with Cons.IH show ?case
    by (cases "map_of (Stop.routesAndPositions stop) rid") auto
qed

lemma fold_max_Max: "fold max xs (0::nat) = Max (insert 0 (set xs))"
  using Max.set_eq_fold [of 0 xs] by simp

lemma Max_below:
  assumes "0 < (n::nat)"
  shows "Max (insert 0 {..<n}) = n - 1"
proof (rule Max_eqI)
  show "finite (insert 0 {..<n})" by simp
  show "y \<le> n - 1" if "y \<in> insert 0 {..<n}" for y using that by auto
  show "n - 1 \<in> insert 0 {..<n}" using assms by auto
qed

lemma reconstruct_covered:
  assumes member: "\<And>p sid. (p, sid) \<in> set (recorded allStops rid) \<longleftrightarrow>
        p < length ids \<and> (\<exists>stop\<in>set allStops. sid = Stop.id stop \<and> py_eq (ids ! p) sid)"
    and covered: "\<forall>x\<in>set ids. \<exists>stop\<in>set allStops. py_eq x (Stop.id stop)"
  shows "list_all2 py_eq ids (reconstruct allStops rid)"
proof -
  let ?pairs = "recorded allStops rid"
  have firsts: "fst ` set ?pairs = {..<length ids}"
  proof (intro set_eqI iffI)
    fix p
    assume "p \<in> fst ` set ?pairs"
    then obtain sid where "(p, sid) \<in> set ?pairs" by auto
    with member show "p \<in> {..<length ids}" by simp
  next
    fix p
    assume "p \<in> {..<length ids}"
    then have p: "p < length ids" by simp
    with covered obtain stop where "stop \<in> set allStops" and "py_eq (ids ! p) (Stop.id stop)"
      by (meson nth_mem)
    with p member have "(p, Stop.id stop) \<in> set ?pairs" by blast
    then show "p \<in> fst ` set ?pairs" by force
  qed
  have bound: "(if ?pairs = [] then 0 else Suc (fold max (map fst ?pairs) 0)) = length ids"
  proof (cases "ids = []")
    case True
    with firsts have "?pairs = []" by simp
    with True show ?thesis by simp
  next
    case False
    then have pos: "0 < length ids" by simp
    with firsts have "?pairs \<noteq> []" by auto
    moreover have "fold max (map fst ?pairs) 0 = length ids - 1"
      using firsts Max_below [OF pos] by (simp add: fold_max_Max)
    ultimately show ?thesis using pos by simp
  qed
  have entry: "py_eq (ids ! i) (case map_of ?pairs i of None \<Rightarrow> JNull | Some sid \<Rightarrow> sid)"
    if "i < length ids" for i
  proof -
    from that firsts have "i \<in> fst ` set ?pairs" by simp
    then obtain sid where some: "map_of ?pairs i = Some sid"
      by (cases "map_of ?pairs i") (auto simp: map_of_eq_None_iff)
    then have "(i, sid) \<in> set ?pairs" by (rule map_of_SomeD)
    with member have "py_eq (ids ! i) sid" by blast
    with some show ?thesis by simp
  qed
  show ?thesis
    unfolding reconstruct_def Let_def bound
    by (simp add: list_all2_conv_all_nth entry)
qed

text \<open>
  Claim C1, as stated: for every stop-listing response, rebuilding a route's list of stop
  ids from the \<^verbatim>\<open>routesAndPositions\<close> of all returned stops gives the list back.  A
  route may name a stop for which the response has no stop record; no returned stop then
  records that position, and the list cannot be rebuilt.
\<close>

theorem round_trip_dangling_counterexample:
  "getStops_on demo_system stops_dangling = Inr (Some [demo_dangling_stop]) \<and>
   rbind (getStops_normalise stops_dangling) getStops_routesAndStops =
     Inr [(''100'', [JStr ''S1'', JStr ''S9''])] \<and>
   reconstruct [demo_dangling_stop] ''100'' = [JStr ''S1''] \<and>
   \<not> list_all2 py_eq [JStr ''S1'', JStr ''S9''] (reconstruct [demo_dangling_stop] ''100'')"
proof -
  have "getStops_on demo_system stops_dangling = Inr (Some [demo_dangling_stop])"
    by code_simp
  moreover have "rbind (getStops_normalise stops_dangling) getStops_routesAndStops =
      Inr [(''100'', [JStr ''S1'', JStr ''S9''])]"
    by code_simp
  moreover have "reconstruct [demo_dangling_stop] ''100'' = [JStr ''S1'']"
    by code_simp
  ultimately show ?thesis by simp
qed

text \<open>
  Claim C1, amended.  Let \<^verbatim>\<open>getStops\<close> return \<open>allStops\<close> for a response, let
  \<open>routesAndStops\<close> be the placeholder-filtered stop-id lists of its routes (the route ids
  are pairwise distinct, as the keys of a dict are) and let \<open>ids\<close> be the list of route
  \<open>rid\<close>.  Then the positions a stop records for \<open>rid\<close> are exactly the indices \<open>i\<close>, in
  increasing order, at which \<open>ids\<close> holds the stop's id (in the sense of Python's
  \<^verbatim>\<open>==\<close>): each recorded position is such an index and each such index is recorded.  If
  moreover every id in \<open>ids\<close> is the id of a returned stop, the list rebuilt from the
  recorded positions of all stops equals \<open>ids\<close>, element by element.
\<close>

theorem routesAndPositions_round_trip:
  assumes "getStops_on sys stops = Inr (Some allStops)"
    and "rbind (getStops_normalise stops) getStops_routesAndStops = Inr routesAndStops"
    and "distinct (map fst routesAndStops)"
    and "(rid, ids) \<in> set routesAndStops"
  shows "(\<forall>stop\<in>set allStops. \<forall>ps. map_of (Stop.routesAndPositions stop) rid = Some ps \<longrightarrow>
            ps = filter (\<lambda>i. py_eq (ids ! i) (Stop.id stop)) [0 ..< length ids] \<and>
            (\<forall>p\<in>set ps. p < length ids \<and> py_eq (ids ! p) (Stop.id stop))) \<and>
         (\<forall>stop\<in>set allStops. \<forall>i<length ids. py_eq (ids ! i) (Stop.id stop) \<longrightarrow>
            (\<exists>ps. map_of (Stop.routesAndPositions stop) rid = Some ps \<and> i \<in> set ps)) \<and>
         ((\<forall>x\<in>set ids. \<exists>stop\<in>set allStops. py_eq x (Stop.id stop)) \<longrightarrow>
            list_all2 py_eq ids (reconstruct allStops rid))"
proof -
  note entry = routesAndPositions_entry [OF assms]
  have first: "\<forall>stop\<in>set allStops. \<forall>ps. map_of (Stop.routesAndPositions stop) rid = Some ps \<longrightarrow>
      ps = filter (\<lambda>i. py_eq (ids ! i) (Stop.id stop)) [0 ..< length ids] \<and>
      (\<forall>p\<in>set ps. p < length ids \<and> py_eq (ids ! p) (Stop.id stop))"
  proof (intro ballI allI impI)
    fix stop ps
    assume "stop \<in> set allStops" and "map_of (Stop.routesAndPositions stop) rid = Some ps"
    with entry [of stop]
    have "ps = filter (\<lambda>i. py_eq (ids ! i) (Stop.id stop)) [0 ..< length ids]"
      by (simp split: if_splits)
    then show "ps = filter (\<lambda>i. py_eq (ids ! i) (Stop.id stop)) [0 ..< length ids] \<and>
        (\<forall>p\<in>set ps. p < length ids \<and> py_eq (ids ! p) (Stop.id stop))"
      by simp
  qed
  have second: "\<forall>stop\<in>set allStops. \<forall>i<length ids. py_eq (ids ! i) (Stop.id stop) \<longrightarrow>
      (\<exists>ps. map_of (Stop.routesAndPositions stop) rid = Some ps \<and> i \<in> set ps)"
  proof (intro ballI allI impI)
    fix stop i
    assume stop: "stop \<in> set allStops" and i: "i < length ids"
      and eq: "py_eq (ids ! i) (Stop.id stop)"
    from i eq have "list_ex (\<lambda>x. py_eq x (Stop.id stop)) ids"
      by (auto simp: list_ex_iff)
    with entry [OF stop] i eq
    show "\<exists>ps. map_of (Stop.routesAndPositions stop) rid = Some ps \<and> i \<in> set ps"
      by simp
  qed
  have member: "(p, sid) \<in> set (recorded allStops rid) \<longleftrightarrow>
      p < length ids \<and> (\<exists>stop\<in>set allStops. sid = Stop.id stop \<and> py_eq (ids ! p) sid)" for p sid
  proof
    assume "(p, sid) \<in> set (recorded allStops rid)"
    then obtain stop ps where "stop \<in> set allStops" and "sid = Stop.id stop"
      and "map_of (Stop.routesAndPositions stop) rid = Some ps" and "p \<in> set ps"
      by (auto simp: recorded_member)
    with first show "p < length ids \<and>
        (\<exists>stop\<in>set allStops. sid = Stop.id stop \<and> py_eq (ids ! p) sid)"
      by blast
  next
    assume "p < length ids \<and> (\<exists>stop\<in>set allStops. sid = Stop.id stop \<and> py_eq (ids ! p) sid)"
    with second show "(p, sid) \<in> set (recorded allStops rid)"
      unfolding recorded_member by blast
  qed
  have third: "(\<forall>x\<in>set ids. \<exists>stop\<in>set allStops. py_eq x (Stop.id stop)) \<longrightarrow>
      list_all2 py_eq ids (reconstruct allStops rid)"
    using reconstruct_covered [of allStops rid ids] member by blast
  from first second third show ?thesis by blast
qed

theorem routesAndPositions_round_trip_witness:
  "getStops_on demo_system demo_stops_response = Inr (Some [demo_stop1, demo_stop2]) \<and>
   rbind (getStops_normalise demo_stops_response) getStops_routesAndStops =
     Inr [(''100'', [JStr ''S1'', JStr ''S2'', JStr ''S1'']), (''300'', [JStr ''S2''])] \<and>
   map_of (Stop.routesAndPositions demo_stop1) ''100'' = Some [0, 2] \<and>
   reconstruct [demo_stop1, demo_stop2] ''100'' = [JStr ''S1'', JStr ''S2'', JStr ''S1''] \<and>
   list_all2 py_eq [JStr ''S1'', JStr ''S2'', JStr ''S1'']
     (reconstruct [demo_stop1, demo_stop2] ''100'')"
proof -
  have run: "getStops_on demo_system demo_stops_response = Inr (Some [demo_stop1, demo_stop2])"
    by code_simp
  have ras: "rbind (getStops_normalise demo_stops_response) getStops_routesAndStops =
      Inr [(''100'', [JStr ''S1'', JStr ''S2'', JStr ''S1'']), (''300'', [JStr ''S2''])]"
    by code_simp
  have dist: "distinct (map fst
      [(''100'', [JStr ''S1'', JStr ''S2'', JStr ''S1'']), (''300'', [JStr ''S2''])])"
    by simp
  have mem: "(''100'', [JStr ''S1'', JStr ''S2'', JStr ''S1'']) \<in>
      set [(''100'', [JStr ''S1'', JStr ''S2'', JStr ''S1'']), (''300'', [JStr ''S2''])]"
    by simp
  have covered: "\<forall>x\<in>set [JStr ''S1'', JStr ''S2'', JStr ''S1''].
      \<exists>stop\<in>set [demo_stop1, demo_stop2]. py_eq x (Stop.id stop)"
    by (simp add: demo_stop1_def demo_stop2_def Stop_init_def)
  have pos: "map_of (Stop.routesAndPositions demo_stop1) ''100'' = Some [0, 2]"
    by (simp add: demo_stop1_def Stop_init_def)
  have rebuilt: "reconstruct [demo_stop1, demo_stop2] ''100'' =
      [JStr ''S1'', JStr ''S2'', JStr ''S1'']"
    by code_simp
  from routesAndPositions_round_trip [OF run ras dist mem] covered
  have "list_all2 py_eq [JStr ''S1'', JStr ''S2'', JStr ''S1'']
      (reconstruct [demo_stop1, demo_stop2] ''100'')"
    by blast
  with run ras pos rebuilt show ?thesis by simp
qed

end
